theory Spec2Isabelle
  imports Complex_Main "HOL-Library.Multiset"
begin

section \<open>Exploratory factor analysis: the model of \<open>factor_analyzer.py\<close>\<close>

text \<open>
  The source is one Python module: three free functions and the class
  \<open>FactorAnalyzer\<close>. Its arithmetic is IEEE double arithmetic delegated to numpy,
  scipy, pandas and scikit-learn. The model idealises a finite float as a \<open>real\<close>
  (no rounding), keeps NaN only where the source tests for it (a cell of a table, an
  entry of a correlation matrix) and takes every routine of those libraries whose body is
  not part of the repository as a field of the record \<open>lib\<close>. Division is Python 3's
  true division. An argument that is a count (\<open>n_factors\<close>, \<open>max_iter\<close>) is a
  \<open>nat\<close>: negative counts are not modelled.
\<close>

subsection \<open>Vectors and matrices (numpy arrays)\<close>

type_synonym vec = "real list"

text \<open>A two-dimensional array is the list of its rows.\<close>

type_synonym matrix = "real list list"

text \<open>\<open>np.finfo(float).eps\<close>, the spacing of doubles at 1.\<close>

definition float_eps :: real where
  "float_eps = 1 / 2 ^ 52"

text \<open>
  \<open>np.dot\<close> of two matrices. numpy raises on operands whose shapes do not conform;
  the model is meant for conforming operands only (each row of \<open>A\<close> as long as
  \<open>B\<close> has rows).
\<close>

definition dot :: "matrix \<Rightarrow> matrix \<Rightarrow> matrix" where
  "dot A B = map (\<lambda>r. map (\<lambda>c. sum_list (map2 (*) r c)) (transpose B)) A"

text \<open>\<open>np.diag\<close> of a vector (the diagonal matrix) and of a matrix (its diagonal).\<close>

definition diag_mat :: "vec \<Rightarrow> matrix" where
  "diag_mat v = map (\<lambda>i. map (\<lambda>j. if i = j then v ! i else 0) [0..<length v]) [0..<length v]"

definition diagonal :: "'a list list \<Rightarrow> 'a list" where
  "diagonal A = map (\<lambda>i. A ! i ! i) [0..<min (length A) (length (hd A))]"

definition eye :: "nat \<Rightarrow> matrix" where
  "eye n = map (\<lambda>i. map (\<lambda>j. if i = j then 1 else 0) [0..<n]) [0..<n]"

text \<open>
  \<open>np.fill_diagonal(a, val)\<close> with a vector \<open>val\<close>: entry \<open>(i, i)\<close> becomes
  \<open>val[i mod len(val)]\<close> (numpy repeats a short \<open>val\<close>); every other entry is left
  alone. The array is changed in place, so the model returns the new array and the
  callers thread it. (numpy raises on an empty \<open>val\<close>; not modelled.)
\<close>

definition fill_diagonal :: "'a list list \<Rightarrow> 'a list \<Rightarrow> 'a list list" where
  "fill_diagonal a val = map (\<lambda>i. (a ! i)[i := val ! (i mod length val)]) [0..<length a]"

text \<open>
  \<open>np.real\<close>. The eigenvalues of \<open>lib\<close> are reals already (numpy returns a real array
  for a symmetric real matrix whenever no imaginary part arises), so taking the real part
  changes nothing.
\<close>

definition np_real :: "vec \<Rightarrow> vec" where
  "np_real v = v"

text \<open>
  Python's \<open>xs[:-k]\<close> for a count \<open>k\<close>: the list without its last \<open>k\<close> elements,
  but the empty list for \<open>k = 0\<close> (\<open>xs[:-0]\<close> is \<open>xs[:0]\<close>).
\<close>

definition drop_last :: "nat \<Rightarrow> 'a list \<Rightarrow> 'a list" where
  "drop_last k xs = (if k = 0 then [] else take (length xs - k) xs)"

subsection \<open>The numeric libraries\<close>

text \<open>The result object of \<open>scipy.optimize.minimize\<close>: \<open>res.x\<close>, \<open>res.success\<close>, \<open>res.message\<close>.\<close>

record opt_result =
  res_x :: vec
  res_success :: bool
  res_message :: string

datatype cell = Num real | NaN | Obj string

text \<open>
  A raw pandas table: the column names and the rows of cells. A cell is a finite float,
  a missing value (NaN), or an object that is not a number. The row index plays no
  part in the source and is left out.
\<close>

record table =
  tcolumns :: "string list"
  trows :: "cell list list"

text \<open>A labelled pandas DataFrame of one cell type: row labels, column labels, rows.\<close>

datatype label = Pos nat | Name string

record 'a frame =
  index :: "label list"
  columns :: "label list"
  vals :: "'a list list"

text \<open>
  The routines of numpy, scipy, pandas and scikit-learn the source calls.
  \<^item> \<open>np_eig\<close>: \<open>np.linalg.eig\<close> and \<open>sp.linalg.eig\<close>; eigenvalue \<open>i\<close> belongs to
    column \<open>i\<close> of the vector matrix, in the order the library chooses.
  \<^item> \<open>np_svd\<close>: \<open>np.linalg.svd\<close>, giving \<open>U\<close>, the singular values and \<open>V\<close>.
  \<^item> \<open>sp_inv\<close>: \<open>inv\<close>, \<open>None\<close> when it raises \<open>LinAlgError\<close>; \<open>sp_pinv\<close>: \<open>pinv\<close>.
  \<^item> \<open>np_det\<close>: \<open>np.linalg.det\<close>; \<open>chi2_pdf\<close>: \<open>sp.stats.chi2.pdf\<close>.
  \<^item> \<open>pd_corr\<close>: \<open>DataFrame.corr\<close>; an entry is \<open>None\<close> when pandas gives NaN.
  \<^item> \<open>sk_scale\<close>: \<open>sklearn.preprocessing.scale\<close>, \<open>None\<close> when it raises \<open>ValueError\<close>.
  \<^item> \<open>sk_linreg\<close>: the \<open>coef_\<close> of \<open>LinearRegression(fit_intercept=False).fit(X, Y)\<close>.
  \<^item> \<open>lbfgsb_next\<close>, \<open>lbfgsb_result\<close>, \<open>lbfgsb_maxfun\<close>: the L-BFGS-B method of
    \<open>scipy.optimize.minimize\<close> as a deterministic black box. From the start vector,
    the bounds, the iteration cap and the objective values seen so far it names the next
    trial point or stops; it makes at most \<open>lbfgsb_maxfun\<close> evaluations; the result
    object is computed from the same history.
  \<^item> \<open>as_matrix_view\<close>: whether \<open>DataFrame.as_matrix\<close> hands out the frame's own
    buffer (as pandas does for a frame of one dtype) rather than a copy.
\<close>

record lib =
  np_eig :: "matrix \<Rightarrow> vec \<times> matrix"
  np_svd :: "matrix \<Rightarrow> matrix \<times> vec \<times> matrix"
  sp_inv :: "matrix \<Rightarrow> matrix option"
  sp_pinv :: "matrix \<Rightarrow> matrix"
  np_det :: "matrix \<Rightarrow> real"
  chi2_pdf :: "real \<Rightarrow> real \<Rightarrow> real"
  pd_corr :: "table \<Rightarrow> real option frame"
  sk_scale :: "table \<Rightarrow> matrix option"
  sk_linreg :: "matrix \<Rightarrow> matrix \<Rightarrow> matrix"
  lbfgsb_next :: "vec \<Rightarrow> (real \<times> real) list option \<Rightarrow> nat \<Rightarrow> (vec \<times> real) list \<Rightarrow> vec option"
  lbfgsb_result :: "vec \<Rightarrow> (real \<times> real) list option \<Rightarrow> nat \<Rightarrow> (vec \<times> real) list \<Rightarrow> opt_result"
  lbfgsb_maxfun :: nat
  as_matrix_view :: bool

subsection \<open>Errors\<close>

text \<open>
  The exceptions the source raises or lets through, one constructor for each place:
  the four \<open>ValueError\<close>s of \<open>analyze\<close> and \<open>fit_factor_analysis\<close> (rotation, impute,
  scaling, null correlations), the \<open>LinAlgError\<close> of the inversion in \<open>smc\<close>, the
  \<open>ValueError\<close> of unpacking a DataFrame that is not a pair, and the \<open>IndexError\<close> of
  \<open>values[0]\<close> on an empty list.
\<close>

datatype error =
  BadRotation | BadImpute | ScaleError | NullCorrelation | LinAlgError | UnpackError | IndexError

subsection \<open>The objective functions\<close>

text \<open>
  \<open>_fit_uls_objective\<close>, lines 265 to 288: the array \<open>corr_mtx\<close> after
  \<open>np.fill_diagonal\<close>, and the loadings built from the eigendecomposition. The values are
  sorted, the columns of \<open>vectors\<close> are taken as the library returned them.
\<close>

definition uls_loadings :: "lib \<Rightarrow> vec \<Rightarrow> matrix \<Rightarrow> nat \<Rightarrow> (error + matrix) \<times> matrix" where
  "uls_loadings L psi corr_mtx n_factors =
     (let corr_mtx = fill_diagonal corr_mtx (map (\<lambda>x. 1 - x) psi);
          (values, vectors) = np_eig L corr_mtx;
          values = np_real values;
          values = map (\<lambda>v. max v (float_eps * 100)) values;
          values = take n_factors (rev (sort values));
          vectors = map (take n_factors) vectors
      in if n_factors > 1 then (Inr (dot vectors (diag_mat (map sqrt values))), corr_mtx)
         else if values = [] then (Inl IndexError, corr_mtx)
         else (Inr (map (map (\<lambda>v. v * sqrt (values ! 0))) vectors), corr_mtx))"

text \<open>
  \<open>_fit_uls_objective\<close>: the sum of the squared residuals over the full matrix. The
  second component is the array \<open>corr_mtx\<close> as the call leaves it: the function writes
  into the array it was passed.
\<close>

definition fit_uls_objective :: "lib \<Rightarrow> vec \<Rightarrow> matrix \<Rightarrow> nat \<Rightarrow> (error + real) \<times> matrix" where
  "fit_uls_objective L psi corr_mtx n_factors =
     (case uls_loadings L psi corr_mtx n_factors of
        (Inl e, corr_mtx) \<Rightarrow> (Inl e, corr_mtx)
      | (Inr loadings, corr_mtx) \<Rightarrow>
          (let model = dot loadings (transpose loadings);
               residual = map2 (map2 (\<lambda>a b. (a - b)\<^sup>2)) corr_mtx model;
               error = sum_list (map sum_list residual)
           in (Inr error, corr_mtx)))"

text \<open>
  \<open>_fit_ml_objective\<close>, lines 322 to 327: the eigenvalues the error is computed from.
\<close>

definition ml_retained :: "lib \<Rightarrow> vec \<Rightarrow> matrix \<Rightarrow> nat \<Rightarrow> vec" where
  "ml_retained L psi corr_mtx n_factors =
     (let sc = diag_mat (map (\<lambda>x. 1 / sqrt x) psi);
          sstar = dot (dot sc corr_mtx) sc;
          (values, _) = np_eig L sstar
      in rev (drop_last n_factors (sort values)))"

text \<open>
  \<open>_fit_ml_objective\<close>. It only reads \<open>corr_mtx\<close>, so the array comes back as it
  went in.
\<close>

definition fit_ml_objective :: "lib \<Rightarrow> vec \<Rightarrow> matrix \<Rightarrow> nat \<Rightarrow> (error + real) \<times> matrix" where
  "fit_ml_objective L psi corr_mtx n_factors =
     (let values = ml_retained L psi corr_mtx n_factors;
          error = - (sum_list (map (\<lambda>v. ln v - v) values) - real n_factors + real (length corr_mtx))
      in (Inr error, corr_mtx))"

subsection \<open>Normalisation of the solution into loadings\<close>

text \<open>
  \<open>_normalize_wls\<close>: the first \<open>n_factors\<close> eigenpairs in the library's order. It
  writes the diagonal of the array it was passed, like the ULS objective.
\<close>

definition normalize_wls :: "lib \<Rightarrow> vec \<Rightarrow> matrix \<Rightarrow> nat \<Rightarrow> matrix \<times> matrix" where
  "normalize_wls L solution corr_mtx n_factors =
     (let corr_mtx = fill_diagonal corr_mtx (map (\<lambda>x. 1 - x) solution);
          (values, vectors) = np_eig L corr_mtx;
          (values, vectors) = (take n_factors values, map (take n_factors) vectors);
          values = np_real values;
          loadings = dot vectors (diag_mat (map sqrt (map (\<lambda>v. max v 0) values)))
      in (loadings, corr_mtx))"

text \<open>\<open>_normalize_ml\<close>.\<close>

definition normalize_ml :: "lib \<Rightarrow> vec \<Rightarrow> matrix \<Rightarrow> nat \<Rightarrow> matrix" where
  "normalize_ml L solution corr_mtx n_factors =
     (let sc = diag_mat (map (\<lambda>x. 1 / sqrt x) solution);
          sstar = dot (dot sc corr_mtx) sc;
          (values, vectors) = np_eig L sstar;
          values = take n_factors (rev (sort values));
          values = map (\<lambda>v. max (v - 1) 0) values;
          vectors = map (take n_factors) vectors;
          loadings = dot vectors (diag_mat (map sqrt values))
      in dot (diag_mat (map sqrt solution)) loadings)"

subsection \<open>The analyzer object\<close>

text \<open>
  What the source logs through \<open>logging.warning\<close>: the non-numeric columns removed,
  the unknown method, the optimizer's failure message.
\<close>

datatype warning =
  NonNumericRemoved "string set" | UnknownMethod string | FailedToConverge string

text \<open>
  An instance of \<open>FactorAnalyzer\<close>: its four attributes. \<open>corr\<close> is the DataFrame
  \<open>df.corr()\<close>, whose entries can be NaN. The log is not part of the instance: a
  method that logs returns, next to its result, the list of the warnings it logged.
\<close>

record analyzer =
  log_warnings :: bool
  corr :: "real option frame option"
  loadings :: "real frame option"
  rotation_matrix :: "matrix option"

text \<open>\<open>__init__\<close>.\<close>

definition FactorAnalyzer :: "bool \<Rightarrow> analyzer" where
  "FactorAnalyzer lw =
     \<lparr>log_warnings = lw, corr = None, loadings = None, rotation_matrix = None\<rparr>"

subsection \<open>Tables\<close>

text \<open>\<open>sp.isreal\<close> on a cell, and \<open>pd.isnull\<close>.\<close>

definition isreal :: "cell \<Rightarrow> bool" where
  "isreal c = (case c of Obj _ \<Rightarrow> False | _ \<Rightarrow> True)"

definition isnull :: "cell \<Rightarrow> bool" where
  "isnull c = (c = NaN)"

definition column :: "'a list list \<Rightarrow> nat \<Rightarrow> 'a list" where
  "column rows j = map (\<lambda>r. r ! j) rows"

text \<open>Boolean-mask selection, \<open>xs[mask]\<close>.\<close>

definition select :: "bool list \<Rightarrow> 'a list \<Rightarrow> 'a list" where
  "select keep xs = map snd (filter fst (zip keep xs))"

text \<open>\<open>df.isnull().any().any()\<close>.\<close>

definition isnull_any :: "table \<Rightarrow> bool" where
  "isnull_any df = list_ex (list_ex isnull) (trows df)"

text \<open>\<open>corr.isnull().any().any()\<close> on a correlation frame.\<close>

definition corr_isnull_any :: "real option frame \<Rightarrow> bool" where
  "corr_isnull_any c = list_ex (list_ex (\<lambda>v. v = None)) (vals c)"

text \<open>
  \<open>DataFrame.as_matrix\<close> on a correlation frame. The model reads it only where no
  entry is NaN: arithmetic on NaN is outside the model.
\<close>

definition as_matrix :: "real option frame \<Rightarrow> matrix" where
  "as_matrix c = map (map the) (vals c)"

text \<open>
  \<open>remove_non_numeric\<close>: keeps the columns all of whose cells pass \<open>sp.isreal\<close>,
  and logs the names removed when there are any and warnings are on. It reads
  \<open>self.log_warnings\<close> only.
\<close>

definition remove_non_numeric :: "analyzer \<Rightarrow> table \<Rightarrow> table \<times> warning list" where
  "remove_non_numeric self data =
     (let old_column_names = tcolumns data;
          keep = map (\<lambda>j. list_all isreal (column (trows data) j)) [0..<length (tcolumns data)];
          data = \<lparr>tcolumns = select keep (tcolumns data), trows = map (select keep) (trows data)\<rparr>;
          non_numeric_columns = set old_column_names - set (tcolumns data)
      in (data, if non_numeric_columns \<noteq> {} \<and> log_warnings self
                then [NonNumericRemoved non_numeric_columns] else []))"

text \<open>The numbers of a column, and pandas' \<open>median\<close> and \<open>mean\<close>, which skip NaN.\<close>

definition numbers :: "cell list \<Rightarrow> vec" where
  "numbers col = concat (map (\<lambda>c. case c of Num v \<Rightarrow> [v] | _ \<Rightarrow> []) col)"

definition median :: "vec \<Rightarrow> real" where
  "median xs =
     (let s = sort xs; n = length s
      in if odd n then s ! (n div 2) else (s ! (n div 2 - 1) + s ! (n div 2)) / 2)"

definition mean :: "vec \<Rightarrow> real" where
  "mean xs = sum_list xs / real (length xs)"

text \<open>
  \<open>df.apply(lambda x: x.fillna(x.median()), axis=0)\<close>, with the statistic as a
  parameter. A column with no number has the statistic NaN, and its cells stay as they
  are.
\<close>

definition fillna :: "(vec \<Rightarrow> real) \<Rightarrow> table \<Rightarrow> table" where
  "fillna stat df =
     df\<lparr>trows :=
          map (\<lambda>r. map (\<lambda>j. if isnull (r ! j) \<and> numbers (column (trows df) j) \<noteq> []
                             then Num (stat (numbers (column (trows df) j))) else r ! j)
                     [0..<length (tcolumns df)])
            (trows df)\<rparr>"

text \<open>\<open>df.dropna()\<close>: the rows without a missing cell.\<close>

definition dropna :: "table \<Rightarrow> table" where
  "dropna df = df\<lparr>trows := filter (\<lambda>r. \<not> list_ex isnull r) (trows df)\<rparr>"

text \<open>\<open>pd.DataFrame(X, columns=df.columns)\<close> for an array \<open>X\<close>.\<close>

definition table_of :: "matrix \<Rightarrow> string list \<Rightarrow> table" where
  "table_of X cols = \<lparr>tcolumns = cols, trows = map (map Num) X\<rparr>"

subsection \<open>Diagnostic statistics\<close>

text \<open>\<open>calculate_bartlett_sphericity\<close>.\<close>

definition calculate_bartlett_sphericity :: "lib \<Rightarrow> table \<Rightarrow> real \<times> real" where
  "calculate_bartlett_sphericity L data =
     (let (n, p) = (length (trows data), length (tcolumns data));
          corr = pd_corr L data;
          chi_square = - (real n - 1 - (2 * real p + 5) / 6) * ln (np_det L (as_matrix corr));
          degrees_of_freedom = real p * (real p - 1) / 2;
          p_value = chi2_pdf L chi_square degrees_of_freedom
      in (chi_square, p_value))"

text \<open>
  \<open>smc(data)\<close> with the default \<open>sort=False\<close>, the only way the class calls it. A
  singular correlation matrix makes \<open>sp.linalg.inv\<close> raise.
\<close>

definition smc :: "lib \<Rightarrow> table \<Rightarrow> error + real frame" where
  "smc L data =
     (let corr = pd_corr L data;
          columns = tcolumns data
      in case sp_inv L (as_matrix corr) of
           None \<Rightarrow> Inl LinAlgError
         | Some corr_inv \<Rightarrow>
             Inr \<lparr>index = map Name columns, columns = [Name ''SMC''],
                  vals = map (\<lambda>d. [1 - 1 / d]) (diagonal corr_inv)\<rparr>)"

subsection \<open>Fitting\<close>

text \<open>
  \<open>minimize(objective, start, method='L-BFGS-B', bounds=bounds, options={'maxiter':
  1000}, args=(corr, n_factors))\<close>. The library calls the objective on one trial
  vector after another, each time with the same array object \<open>corr\<close>, so what a call
  writes into the array is what the next call finds. An exception of the objective ends
  the run.
\<close>

type_synonym objective = "vec \<Rightarrow> matrix \<Rightarrow> (error + real) \<times> matrix"

fun minimize_loop ::
  "lib \<Rightarrow> objective \<Rightarrow> vec \<Rightarrow> (real \<times> real) list option \<Rightarrow> nat \<Rightarrow> nat \<Rightarrow>
   (vec \<times> real) list \<Rightarrow> matrix \<Rightarrow> (error + opt_result) \<times> matrix" where
  "minimize_loop L f start bounds maxiter 0 hist a =
     (Inr (lbfgsb_result L start bounds maxiter hist), a)"
| "minimize_loop L f start bounds maxiter (Suc n) hist a =
     (case lbfgsb_next L start bounds maxiter hist of
        None \<Rightarrow> (Inr (lbfgsb_result L start bounds maxiter hist), a)
      | Some x \<Rightarrow>
          (case f x a of
             (Inl e, a') \<Rightarrow> (Inl e, a')
           | (Inr v, a') \<Rightarrow> minimize_loop L f start bounds maxiter n (hist @ [(x, v)]) a'))"

definition minimize ::
  "lib \<Rightarrow> objective \<Rightarrow> vec \<Rightarrow> (real \<times> real) list option \<Rightarrow> nat \<Rightarrow> matrix \<Rightarrow>
   (error + opt_result) \<times> matrix" where
  "minimize L f start bounds maxiter a =
     minimize_loop L f start bounds maxiter (lbfgsb_maxfun L) [] a"

text \<open>Python's \<open>str\<close> of a natural number, for \<open>'Factor{}'.format(i)\<close>.\<close>

function string_of_nat :: "nat \<Rightarrow> string" where
  "string_of_nat n =
     (if n < 10 then [''0123456789'' ! n]
      else string_of_nat (n div 10) @ [''0123456789'' ! (n mod 10)])"
  by pat_completeness auto
termination
  by (relation "measure id") auto

declare string_of_nat.simps [simp del]

text \<open>
  \<open>fit_factor_analysis\<close>. The argument \<open>meth\<close> is the source's \<open>method\<close>. The
  array \<open>corr\<close> is local to the call: it is made from \<open>data.corr()\<close>, handed to the
  optimizer and then, as the optimizer's calls left it (\<open>corr'\<close>), to the
  normalisation. The second component is the list of the warnings logged.
\<close>

definition fit_factor_analysis ::
  "lib \<Rightarrow> analyzer \<Rightarrow> table \<Rightarrow> nat \<Rightarrow> bool \<Rightarrow> (real \<times> real) option \<Rightarrow> string \<Rightarrow>
   (error + real frame) \<times> warning list" where
  "fit_factor_analysis L self data n_factors use_smc bounds meth =
     (let log = (if meth \<notin> {''ml'', ''minres''} \<and> log_warnings self
                 then [UnknownMethod meth] else []);
          corr = pd_corr L data
      in if corr_isnull_any corr then (Inl NullCorrelation, log)
         else
           (let corr = as_matrix corr
            in case (if use_smc
                     then (case smc L data of
                             Inl e \<Rightarrow> Inl e
                           | Inr smc_mtx \<Rightarrow> Inr (map2 (-) (diagonal corr) (concat (vals smc_mtx))))
                     else Inr (replicate (length corr) (1 / 2))) of
                 Inl e \<Rightarrow> (Inl e, log)
               | Inr start \<Rightarrow>
                   (let bounds = map_option (replicate (length corr)) bounds;
                        objective = (if meth = ''ml''
                                     then (\<lambda>psi a. fit_ml_objective L psi a n_factors)
                                     else (\<lambda>psi a. fit_uls_objective L psi a n_factors))
                    in case minimize L objective start bounds 1000 corr of
                         (Inl e, corr') \<Rightarrow> (Inl e, log)
                       | (Inr res, corr') \<Rightarrow>
                           (let log = log @ (if \<not> res_success res \<and> log_warnings self
                                             then [FailedToConverge (res_message res)] else []);
                                columns = map (\<lambda>i. Name (''Factor'' @ string_of_nat i))
                                            [1..<n_factors + 1];
                                loadings = (if meth = ''ml''
                                            then normalize_ml L (res_x res) corr' n_factors
                                            else fst (normalize_wls L (res_x res) corr' n_factors))
                            in (Inr \<lparr>index = map Name (tcolumns data), columns = columns,
                                     vals = loadings\<rparr>, log)))))"

subsection \<open>Rotation\<close>

text \<open>
  What \<open>varimax\<close> and \<open>promax\<close> return: the pair \<open>loadings, rotation_mtx\<close> of their
  last line, or the lone DataFrame of the early \<open>return df\<close>.
\<close>

datatype rot_result = Bare "real frame" | Pair "real frame" matrix

text \<open>The loop of \<open>varimax\<close>, on the iterations that are left; it gives the rotation matrix and \<open>d\<close>.\<close>

fun varimax_loop ::
  "lib \<Rightarrow> matrix \<Rightarrow> nat \<Rightarrow> real \<Rightarrow> nat \<Rightarrow> matrix \<Rightarrow> real \<Rightarrow> matrix \<times> real" where
  "varimax_loop L X n_rows tolerance 0 rotation_mtx d = (rotation_mtx, d)"
| "varimax_loop L X n_rows tolerance (Suc it) rotation_mtx d =
     (let old_d = d;
          basis = dot X rotation_mtx;
          transformed =
            dot (transpose X)
              (map2 (map2 (-)) (map (map (\<lambda>b. b ^ 3)) basis)
                 (map (map (\<lambda>b. (1 / real n_rows) * b))
                    (dot basis (diag_mat (diagonal (dot (transpose basis) basis))))));
          (U, S, V) = np_svd L transformed;
          rotation_mtx = dot U V;
          d = sum_list S
      in if old_d \<noteq> 0 \<and> d / old_d < 1 + tolerance then (rotation_mtx, d)
         else varimax_loop L X n_rows tolerance it rotation_mtx d)"

text \<open>\<open>varimax\<close>.\<close>

definition varimax :: "lib \<Rightarrow> real frame \<Rightarrow> bool \<Rightarrow> nat \<Rightarrow> real \<Rightarrow> rot_result" where
  "varimax L data normalize' max_iter tolerance =
     (let df = data;
          column_names = index df;
          index_names = columns df;
          (n_rows, n_cols) = (length (index df), length (columns df))
      in if n_cols < 2 then Bare df
         else
           (let X = vals df;
                normalized_mtx = map (\<lambda>x. sqrt (sum_list (map (\<lambda>v. v\<^sup>2) x))) (vals df);
                X = (if normalize' then map2 (\<lambda>r nrm. map (\<lambda>v. v / nrm) r) X normalized_mtx else X);
                rotation_mtx = eye n_cols;
                (rotation_mtx, d) = varimax_loop L X n_rows tolerance max_iter rotation_mtx 0;
                X = dot X rotation_mtx;
                X = (if normalize' then map (\<lambda>c. map2 (*) c normalized_mtx) (transpose X)
                     else transpose X);
                loadings = \<lparr>index = column_names, columns = index_names, vals = transpose X\<rparr>
            in Pair loadings rotation_mtx))"

text \<open>
  \<open>promax\<close>. Unpacking the result of \<open>varimax\<close> into two names fails on a lone
  DataFrame of fewer than two columns.
\<close>

definition promax :: "lib \<Rightarrow> real frame \<Rightarrow> bool \<Rightarrow> int \<Rightarrow> error + rot_result" where
  "promax L data normalize' power' =
     (let df = data;
          column_names = index df;
          index_names = columns df;
          (n_rows, n_cols) = (length (index df), length (columns df))
      in if n_cols < 2 then Inr (Bare df)
         else
           (let array = vals df;
                h2 = diagonal (dot array (transpose array));
                weights = (if normalize'
                           then \<lparr>index = column_names, columns = index_names,
                                 vals = map2 (\<lambda>r h. map (\<lambda>v. v / sqrt h) r) array h2\<rparr>
                           else df)
            in case varimax L weights normalize' 500 (1 / 10 ^ 5) of
                 Bare _ \<Rightarrow> Inl UnpackError
               | Pair X rotation_mtx \<Rightarrow>
                   (let X = vals X;
                        Y = map (map (\<lambda>x. x * power_int \<bar>x\<bar> (power' - 1))) X;
                        coef = sk_linreg L X Y;
                        coef = transpose coef;
                        diag_inv = (case sp_inv L (dot (transpose coef) coef) of
                                      Some m \<Rightarrow> diagonal m
                                    | None \<Rightarrow> diagonal (sp_pinv L (dot (transpose coef) coef)));
                        coef = dot coef (diag_mat (map sqrt diag_inv));
                        z = dot X coef;
                        z = (if normalize' then map2 (\<lambda>r h. map (\<lambda>v. v * sqrt h) r) z h2 else z);
                        rotation_mtx = dot rotation_mtx coef;
                        loadings = \<lparr>index = column_names, columns = index_names, vals = z\<rparr>
                    in Inr (Pair loadings rotation_mtx))))"

subsection \<open>The analysis\<close>

text \<open>
  \<open>loadings, rotation_mtx = ...\<close>: unpacking a rotation result. A lone DataFrame
  iterates over its column labels, fewer than two here, so the assignment raises.
\<close>

definition unpack :: "rot_result \<Rightarrow> error + real frame \<times> matrix option" where
  "unpack r = (case r of Bare _ \<Rightarrow> Inl UnpackError | Pair l m \<Rightarrow> Inr (l, Some m))"

text \<open>
  \<open>analyze\<close>, lines 589 to 606: the missing values are imputed or dropped, or the
  call raises. \<open>impute\<close> is a string.
\<close>

definition impute_missing :: "string \<Rightarrow> table \<Rightarrow> error + table" where
  "impute_missing impute df =
     (if isnull_any df
      then (if impute = ''median'' then Inr (fillna median df)
            else if impute = ''mean'' then Inr (fillna mean df)
            else if impute = ''drop'' then Inr (dropna df)
            else Inl BadImpute)
      else Inr df)"

text \<open>
  \<open>analyze\<close>, lines 624 to 633: the rotation of the fitted loadings. \<open>rotation\<close> is
  a string or \<open>None\<close>; \<open>power\<close> of \<open>promax\<close> has its default 4, \<open>max_iter\<close> and
  \<open>tolerance\<close> of \<open>varimax\<close> their defaults 500 and \<open>1e-5\<close>.
\<close>

definition rotate_loadings ::
  "lib \<Rightarrow> string option \<Rightarrow> real frame \<Rightarrow> bool \<Rightarrow> error + real frame \<times> matrix option" where
  "rotate_loadings L rotation loadings' normalize' =
     (case rotation of
        None \<Rightarrow> Inr (loadings', None)
      | Some r \<Rightarrow>
          if r = ''varimax'' then unpack (varimax L loadings' normalize' 500 (1 / 10 ^ 5))
          else if r = ''promax''
          then (case promax L loadings' normalize' 4 of Inl e \<Rightarrow> Inl e | Inr rr \<Rightarrow> unpack rr)
          else Inr (loadings', None))"

text \<open>
  \<open>analyze\<close>. \<open>meth\<close> is the source's \<open>method\<close>, a string. The method returns
  nothing: its results are the three attributes it assigns last. \<open>loadings'\<close> is the
  variable \<open>loadings\<close> after the fit, \<open>loadings''\<close> after the rotation. The third
  component is the list of the warnings logged during the call.
\<close>

definition analyze ::
  "lib \<Rightarrow> analyzer \<Rightarrow> table \<Rightarrow> nat \<Rightarrow> string option \<Rightarrow> string \<Rightarrow> bool \<Rightarrow>
   (real \<times> real) option \<Rightarrow> bool \<Rightarrow> string \<Rightarrow> (error + unit) \<times> analyzer \<times> warning list" where
  "analyze L self data n_factors rotation meth use_smc bounds normalize' impute =
     (if rotation \<notin> {Some ''varimax'', Some ''promax'', None} then (Inl BadRotation, self, [])
      else
        (let df = data;
             (df, log) = remove_non_numeric self df
         in case impute_missing impute df of
              Inl e \<Rightarrow> (Inl e, self, log)
            | Inr df \<Rightarrow>
                (case sk_scale L df of
                   None \<Rightarrow> (Inl ScaleError, self, log)
                 | Some X \<Rightarrow>
                     (let X = table_of X (tcolumns df)
                      in case fit_factor_analysis L self X n_factors use_smc bounds meth of
                           (Inl e, log') \<Rightarrow> (Inl e, self, log @ log')
                         | (Inr loadings', log') \<Rightarrow>
                             (case rotate_loadings L rotation loadings' normalize' of
                                Inl e \<Rightarrow> (Inl e, self, log @ log')
                              | Inr (loadings'', rotation_mtx) \<Rightarrow>
                                  (Inr (),
                                   self\<lparr>corr := Some (pd_corr L df),
                                        loadings := Some loadings'',
                                        rotation_matrix := rotation_mtx\<rparr>,
                                   log @ log'))))))"

subsection \<open>Diagnostics of the stored result\<close>

text \<open>The body of \<open>get_communalities\<close>: the row sums of the squared loadings.\<close>

definition communalities_of :: "real frame \<Rightarrow> real frame" where
  "communalities_of l =
     \<lparr>index = index l, columns = [Name ''Communalities''],
      vals = map (\<lambda>r. [sum_list (map (\<lambda>v. v\<^sup>2) r)]) (vals l)\<rparr>"

definition get_communalities :: "analyzer \<Rightarrow> real frame option" where
  "get_communalities self =
     (case loadings self of None \<Rightarrow> None | Some l \<Rightarrow> Some (communalities_of l))"

definition get_uniqueness :: "analyzer \<Rightarrow> real frame option" where
  "get_uniqueness self =
     (case loadings self of
        None \<Rightarrow> None
      | Some l \<Rightarrow>
          (let communalities = communalities_of l;
               uniqueness = communalities\<lparr>vals := map (map (\<lambda>c. 1 - c)) (vals communalities)\<rparr>
           in Some (uniqueness\<lparr>columns := [Name ''Uniqueness'']\<rparr>)))"

text \<open>\<open>pd.DataFrame(xs, columns=[name])\<close> for a list \<open>xs\<close>.\<close>

definition column_frame :: "string \<Rightarrow> vec \<Rightarrow> real frame" where
  "column_frame name xs =
     \<lparr>index = map Pos [0..<length xs], columns = [Name name], vals = map (\<lambda>v. [v]) xs\<rparr>"

text \<open>
  \<open>get_eigenvalues\<close>. It fills the diagonal of \<open>self.corr.as_matrix()\<close> in place;
  when that array is the frame's own buffer, the stored correlation matrix changes
  with it.
\<close>

definition get_eigenvalues ::
  "lib \<Rightarrow> analyzer \<Rightarrow> (real frame \<times> real frame) option \<times> analyzer" where
  "get_eigenvalues L self =
     (case (corr self, loadings self) of
        (Some c, Some l) \<Rightarrow>
          (let corr = as_matrix c;
               (e_values, _) = np_eig L corr;
               e_values = np_real e_values;
               e_values = column_frame ''Original_Eigenvalues'' (rev (sort e_values));
               communalities = communalities_of l;
               corr = fill_diagonal corr (concat (vals communalities));
               (values, _) = np_eig L corr;
               values = np_real values;
               values = column_frame ''Common_Factor_Eigenvalues'' (rev (sort values))
           in (Some (e_values, values),
               if as_matrix_view L
               then self\<lparr>corr := Some (c\<lparr>vals := fill_diagonal (vals c)
                                                     (map Some (concat (vals communalities)))\<rparr>)\<rparr>
               else self))
      | _ \<Rightarrow> (None, self))"

text \<open>\<open>cumsum\<close>: the running sums.\<close>

fun cumsum_from :: "real \<Rightarrow> vec \<Rightarrow> vec" where
  "cumsum_from acc [] = []"
| "cumsum_from acc (x # xs) = (acc + x) # cumsum_from (acc + x) xs"

definition cumsum :: "vec \<Rightarrow> vec" where
  "cumsum xs = cumsum_from 0 xs"

text \<open>
  \<open>get_factor_variance\<close>: the rows \<open>SS Loadings\<close>, \<open>Proportion Var\<close> and
  \<open>Cumulative Var\<close>, one column for each factor.
\<close>

definition get_factor_variance :: "analyzer \<Rightarrow> real frame option" where
  "get_factor_variance self =
     (case loadings self of
        None \<Rightarrow> None
      | Some l \<Rightarrow>
          (let n_rows = length (index l);
               sq = map (map (\<lambda>v. v\<^sup>2)) (vals l);
               variance = map (\<lambda>j. sum_list (column sq j)) [0..<length (columns l)];
               proportional_variance = map (\<lambda>v. v / real n_rows) variance;
               cumulative_variance = cumsum proportional_variance
           in Some \<lparr>index = [Name ''SS Loadings'', Name ''Proportion Var'', Name ''Cumulative Var''],
                    columns = columns l,
                    vals = [variance, proportional_variance, cumulative_variance]\<rparr>))"

subsection \<open>A concrete library for worked examples\<close>

text \<open>
  To run the model on concrete inputs the library record needs concrete routines. The
  ones below are exact on the inputs of the worked examples and make no claim beyond
  them: the matrices are diagonal (or two by two, for the determinant), the tables have
  columns that are constant or already standardised. The optimizer is not scipy's: it
  evaluates the objective at the start vector and returns that vector, so the numbers a
  fit produces with it are this optimizer's and not the ones L-BFGS-B would end on. The
  worked examples that carry a claim state only what does not depend on the trial
  points: outcomes, labels, logs, and which attributes are written.
\<close>

definition demo_eig :: "matrix \<Rightarrow> vec \<times> matrix" where
  "demo_eig m = (diagonal m, eye (length m))"

definition demo_svd :: "matrix \<Rightarrow> matrix \<times> vec \<times> matrix" where
  "demo_svd m = (eye (length m), diagonal m, eye (length m))"

definition demo_inv :: "matrix \<Rightarrow> matrix option" where
  "demo_inv m =
     (if list_ex (\<lambda>d. d = 0) (diagonal m) then None
      else Some (diag_mat (map inverse (diagonal m))))"

definition demo_pinv :: "matrix \<Rightarrow> matrix" where
  "demo_pinv m = diag_mat (map inverse (diagonal m))"

definition demo_det :: "matrix \<Rightarrow> real" where
  "demo_det m =
     (if length m = 2 then m ! 0 ! 0 * m ! 1 ! 1 - m ! 0 ! 1 * m ! 1 ! 0
      else prod_list (diagonal m))"

text \<open>The chi-square density with one degree of freedom.\<close>

definition demo_chi2_pdf :: "real \<Rightarrow> real \<Rightarrow> real" where
  "demo_chi2_pdf x k = exp (- x / 2) / sqrt (2 * pi * x)"

text \<open>
  Pearson correlations of columns with mean 0 and variance 1: the mean of the
  products. A constant column has no correlation with anything.
\<close>

definition demo_corr :: "table \<Rightarrow> real option frame" where
  "demo_corr t =
     (let cols = map (\<lambda>j. numbers (column (trows t) j)) [0..<length (tcolumns t)];
          n = length (trows t)
      in \<lparr>index = map Name (tcolumns t), columns = map Name (tcolumns t),
          vals = map (\<lambda>a. map (\<lambda>b. if length (remdups a) \<le> 1 \<or> length (remdups b) \<le> 1
                                      then None
                                      else Some (sum_list (map2 (*) a b) / real n)) cols) cols\<rparr>)"

definition demo_scale :: "table \<Rightarrow> matrix option" where
  "demo_scale t =
     (if list_all (list_all (\<lambda>c. case c of Num _ \<Rightarrow> True | _ \<Rightarrow> False)) (trows t)
      then Some (map numbers (trows t)) else None)"

definition demo_linreg :: "matrix \<Rightarrow> matrix \<Rightarrow> matrix" where
  "demo_linreg X Y = eye (length (hd X))"

definition demo_lib :: lib where
  "demo_lib =
     \<lparr>np_eig = demo_eig, np_svd = demo_svd, sp_inv = demo_inv, sp_pinv = demo_pinv,
      np_det = demo_det, chi2_pdf = demo_chi2_pdf, pd_corr = demo_corr,
      sk_scale = demo_scale, sk_linreg = demo_linreg,
      lbfgsb_next = (\<lambda>start bounds maxiter hist. if hist = [] then Some start else None),
      lbfgsb_result = (\<lambda>start bounds maxiter hist.
         \<lparr>res_x = start, res_success = True, res_message = ''CONVERGENCE''\<rparr>),
      lbfgsb_maxfun = 15000,
      as_matrix_view = True\<rparr>"

text \<open>
  Four observations of two uncorrelated, standardised variables with given names; six observations of
  two standardised variables with correlation \<open>1/3\<close>; and a table whose second column
  is constant.
\<close>

definition table_uncorrelated :: "string \<Rightarrow> string \<Rightarrow> table" where
  "table_uncorrelated a b =
     \<lparr>tcolumns = [a, b],
      trows = [[Num 1, Num 1], [Num 1, Num (-1)], [Num (-1), Num 1], [Num (-1), Num (-1)]]\<rparr>"

definition table_correlated :: table where
  "table_correlated =
     \<lparr>tcolumns = [''x'', ''y''],
      trows = [[Num 1, Num 1], [Num 1, Num 1], [Num 1, Num (-1)],
               [Num (-1), Num 1], [Num (-1), Num (-1)], [Num (-1), Num (-1)]]\<rparr>"

definition table_constant :: table where
  "table_constant =
     \<lparr>tcolumns = [''x'', ''y''],
      trows = [[Num 1, Num 0], [Num 1, Num 0], [Num (-1), Num 0], [Num (-1), Num 0]]\<rparr>"


text \<open>A table with a missing value.\<close>

definition table_missing :: table where
  "table_missing =
     \<lparr>tcolumns = [''x'', ''y''],
      trows = [[Num 1, NaN], [Num (-1), Num 1]]\<rparr>"

section \<open>Properties\<close>

subsection \<open>The getters before any analysis\<close>

text \<open>
  Claim C10. On an analyzer whose stored loadings are \<open>None\<close>, as they are after
  \<open>__init__\<close> and before any call of \<open>analyze\<close>, each of \<open>get_communalities\<close>,
  \<open>get_uniqueness\<close>, \<open>get_eigenvalues\<close> and \<open>get_factor_variance\<close> returns
  \<open>None\<close>; none raises, none returns a table, and \<open>get_eigenvalues\<close> leaves the
  instance as it was.
\<close>

theorem getters_none_before_analysis:
  "loadings self = None \<Longrightarrow>
     get_communalities self = None \<and> get_uniqueness self = None \<and>
     get_eigenvalues L self = (None, self) \<and> get_factor_variance self = None"
  by (simp add: get_communalities_def get_uniqueness_def get_eigenvalues_def
        get_factor_variance_def split: option.splits)

theorem getters_none_before_analysis_witness:
  "loadings (FactorAnalyzer False) = None \<and>
   get_communalities (FactorAnalyzer False) = None \<and>
   get_uniqueness (FactorAnalyzer False) = None \<and>
   get_eigenvalues demo_lib (FactorAnalyzer False) = (None, FactorAnalyzer False) \<and>
   get_factor_variance (FactorAnalyzer False) = None"
proof -
  have h: "loadings (FactorAnalyzer False) = None"
    by (simp add: FactorAnalyzer_def)
  from getters_none_before_analysis [OF h, of demo_lib] h show ?thesis by simp
qed

subsection \<open>The factor variance table\<close>






subsection \<open>The eigenvalues of the ML objective\<close>

lemma drop_last_pos: "0 < k \<Longrightarrow> drop_last k xs = take (length xs - k) xs"
  by (simp add: drop_last_def)

lemma ml_retained_eq:
  assumes "0 < n_factors"
    and "np_eig L (dot (dot (diag_mat (map (\<lambda>x. 1 / sqrt x) psi)) corr_mtx)
                       (diag_mat (map (\<lambda>x. 1 / sqrt x) psi))) = (values, vectors)"
  shows "ml_retained L psi corr_mtx n_factors
           = rev (take (length values - n_factors) (sort values))"
  using assms by (simp add: ml_retained_def Let_def drop_last_def)

lemma smallest_part:
  fixes xs :: "real list"
  shows "sorted (rev (rev (take n (sort xs))))
     \<and> mset (rev (take n (sort xs))) + mset (drop n (sort xs)) = mset xs
     \<and> list_all (\<lambda>a. list_all (\<lambda>b. a \<le> b) (drop n (sort xs))) (rev (take n (sort xs)))"
proof -
  have "mset (take n (sort xs)) + mset (drop n (sort xs)) = mset (sort xs)"
    by (metis append_take_drop_id mset_append)
  moreover have "sorted (take n (sort xs) @ drop n (sort xs))" by simp
  then have "\<forall>a \<in> set (take n (sort xs)). \<forall>b \<in> set (drop n (sort xs)). a \<le> b"
    unfolding sorted_append by blast
  ultimately show ?thesis by (simp add: list_all_iff sorted_wrt_take)
qed

text \<open>
  Claim C6. For at least one factor and a library that returns as many eigenvalues as the
  correlation matrix has rows (\<open>p\<close>), the ML objective takes the eigenvalues of
  \<open>diag(1/sqrt(psi)) * corr * diag(1/sqrt(psi))\<close>, sorts them ascending, drops the
  \<open>k\<close> largest and reverses the rest: the retained list is descending, has
  \<open>p - k\<close> elements, makes up all the eigenvalues together with the dropped ones,
  and none of its elements exceeds a dropped one. The objective is
  \<open>-(sum (log v - v) - k + p)\<close> over the retained list, and the array
  \<open>corr_mtx\<close> is returned as it came.
\<close>

theorem ml_objective_retained:
  assumes "0 < n_factors"
    and "np_eig L (dot (dot (diag_mat (map (\<lambda>x. 1 / sqrt x) psi)) corr_mtx)
                       (diag_mat (map (\<lambda>x. 1 / sqrt x) psi))) = (values, vectors)"
    and "length values = length corr_mtx"
  shows "ml_retained L psi corr_mtx n_factors
           = rev (take (length corr_mtx - n_factors) (sort values))
     \<and> sorted (rev (ml_retained L psi corr_mtx n_factors))
     \<and> length (ml_retained L psi corr_mtx n_factors) = length corr_mtx - n_factors
     \<and> mset (ml_retained L psi corr_mtx n_factors)
           + mset (drop (length corr_mtx - n_factors) (sort values)) = mset values
     \<and> list_all (\<lambda>a. list_all (\<lambda>b. a \<le> b) (drop (length corr_mtx - n_factors) (sort values)))
           (ml_retained L psi corr_mtx n_factors)
     \<and> fit_ml_objective L psi corr_mtx n_factors
           = (Inr (- ((\<Sum>v\<leftarrow>ml_retained L psi corr_mtx n_factors. ln v - v)
                      - real n_factors + real (length corr_mtx))), corr_mtx)"
proof -
  let ?n = "length corr_mtx - n_factors"
  have r: "ml_retained L psi corr_mtx n_factors = rev (take ?n (sort values))"
    using ml_retained_eq [OF assms(1,2)] assms(3) by simp
  have len: "length (rev (take ?n (sort values))) = ?n"
    using assms(3) by simp
  have obj: "fit_ml_objective L psi corr_mtx n_factors
           = (Inr (- ((\<Sum>v\<leftarrow>ml_retained L psi corr_mtx n_factors. ln v - v)
                      - real n_factors + real (length corr_mtx))), corr_mtx)"
    by (simp add: fit_ml_objective_def Let_def)
  from smallest_part [of ?n "values"] len obj show ?thesis
    unfolding r by simp
qed

lemma demo_sstar:
  "dot (dot (diag_mat (map (\<lambda>x. 1 / sqrt x) [4, 1])) [[1, 0], [0, 1]])
       (diag_mat (map (\<lambda>x. 1 / sqrt x) [4, 1])) = [[1/4, 0], [0, 1]]"
  by (simp add: dot_def diag_mat_def upt_rec)

theorem ml_objective_retained_witness:
  "ml_retained demo_lib [4, 1] [[1, 0], [0, 1]] 1 = [1/4]
   \<and> fit_ml_objective demo_lib [4, 1] [[1, 0], [0, 1]] 1
       = (Inr (- ((ln (1/4) - 1/4) - 1 + 2)), [[1, 0], [0, 1]])"
proof -
  have h1: "0 < (1::nat)" by simp
  have h2: "np_eig demo_lib (dot (dot (diag_mat (map (\<lambda>x. 1 / sqrt x) [4, 1])) [[1, 0], [0, 1]])
                       (diag_mat (map (\<lambda>x. 1 / sqrt x) [4, 1]))) = ([1/4, 1], [[1, 0], [0, 1]])"
    unfolding demo_sstar by (simp add: demo_lib_def demo_eig_def diagonal_def eye_def upt_rec)
  have h3: "length [1/4, 1::real] = length [[1, 0], [0, 1::real]]" by simp
  from ml_objective_retained [OF h1 h2 h3] show ?thesis by simp
qed

subsection \<open>Bartlett's test of sphericity\<close>

text \<open>
  Claim C5. For a table with \<open>n\<close> rows and \<open>p\<close> columns whose correlation matrix
  \<open>R\<close> has no NaN entry and a positive determinant (so that its logarithm is a
  number), \<open>calculate_bartlett_sphericity\<close> returns the statistic
  \<open>-(n - 1 - (2p + 5)/6) * ln(det R)\<close> and, as p-value, the library's chi-square
  density \<open>chi2.pdf\<close> at that statistic with \<open>p(p - 1)/2\<close> degrees of freedom.
\<close>

theorem bartlett_sphericity_formula:
  assumes "\<not> corr_isnull_any (pd_corr L data)"
    and "0 < np_det L (as_matrix (pd_corr L data))"
    and "n = real (length (trows data))" and "p = real (length (tcolumns data))"
    and "R = as_matrix (pd_corr L data)"
    and "chi = - (n - 1 - (2 * p + 5) / 6) * ln (np_det L R)"
  shows "calculate_bartlett_sphericity L data = (chi, chi2_pdf L chi (p * (p - 1) / 2))"
  using assms by (simp add: calculate_bartlett_sphericity_def Let_def)

lemma demo_corr_correlated:
  "demo_corr table_correlated =
     \<lparr>index = [Name ''x'', Name ''y''], columns = [Name ''x'', Name ''y''],
      vals = [[Some 1, Some (1/3)], [Some (1/3), Some 1]]\<rparr>"
  by (simp add: demo_corr_def table_correlated_def Let_def column_def numbers_def upt_rec)

lemma demo_corr_uncorrelated:
  "demo_corr (table_uncorrelated a b) =
     \<lparr>index = [Name a, Name b], columns = [Name a, Name b],
      vals = [[Some 1, Some 0], [Some 0, Some 1]]\<rparr>"
  by (simp add: demo_corr_def table_uncorrelated_def Let_def column_def numbers_def upt_rec)

lemma demo_corr_constant:
  "demo_corr table_constant =
     \<lparr>index = [Name ''x'', Name ''y''], columns = [Name ''x'', Name ''y''],
      vals = [[Some 1, None], [None, None]]\<rparr>"
  by (simp add: demo_corr_def table_constant_def Let_def column_def numbers_def upt_rec)

theorem bartlett_sphericity_formula_witness:
  "calculate_bartlett_sphericity demo_lib table_correlated =
     (- (7 / 2) * ln (8 / 9),
      chi2_pdf demo_lib (- (7 / 2) * ln (8 / 9)) 1)
   \<and> 0 < - (7 / 2) * ln (8 / 9 :: real)"
proof -
  have c: "pd_corr demo_lib table_correlated = demo_corr table_correlated"
    by (simp add: demo_lib_def)
  have R: "as_matrix (pd_corr demo_lib table_correlated) = [[1, 1/3], [1/3, 1]]"
    by (simp add: c demo_corr_correlated as_matrix_def)
  have d: "np_det demo_lib [[1, 1/3], [1/3, 1]] = 8 / 9"
    by (simp add: demo_lib_def demo_det_def)
  have h1: "\<not> corr_isnull_any (pd_corr demo_lib table_correlated)"
    by (simp add: c demo_corr_correlated corr_isnull_any_def)
  have h2: "0 < np_det demo_lib (as_matrix (pd_corr demo_lib table_correlated))"
    by (simp add: R d)
  have h3: "6 = real (length (trows table_correlated))"
    and h4: "2 = real (length (tcolumns table_correlated))"
    by (simp_all add: table_correlated_def)
  have h6: "- (7 / 2) * ln (8 / 9) = - (6 - 1 - (2 * 2 + 5) / 6) * ln (np_det demo_lib [[1, 1/3], [1/3, 1]])"
    by (simp add: d)
  have pos: "0 < - (7 / 2) * ln (8 / 9 :: real)"
    by (simp add: ln_less_zero_iff zero_less_mult_iff)
  from bartlett_sphericity_formula [OF h1 h2 h3 h4 R [symmetric] h6] pos
  show ?thesis by simp
qed

subsection \<open>What the objective functions do to the array they are passed\<close>

lemma length_fill_diagonal [simp]: "length (fill_diagonal a v) = length a"
  by (simp add: fill_diagonal_def)











lemma fill_identity: "fill_diagonal [[1, 0], [0, 1::real]] [a, b] = [[a, 0], [0, b]]"
  by (simp add: fill_diagonal_def upt_rec)


subsection \<open>The eigenvectors of the ULS objective\<close>

lemma demo_eig_diag2: "np_eig demo_lib [[a, 0], [0, b]] = ([a, b], [[1, 0], [0, 1]])"
  by (simp add: demo_lib_def demo_eig_def diagonal_def eye_def upt_rec)

lemma uls_loadings_demo:
  "uls_loadings demo_lib [1/2, 1/5] [[1, 0], [0, 1]] 1
     = (Inr [[sqrt (4/5)], [0]], [[1/2, 0], [0, 4/5]])"
  by (simp add: uls_loadings_def fill_identity demo_eig_diag2 np_real_def float_eps_def Let_def)

text \<open>
  Claim C1 at a failing input. For the identity correlation matrix and
  \<open>psi = [1/2, 1/5]\<close> the matrix after \<open>fill_diagonal\<close> is diagonal with entries
  \<open>1/2\<close> and \<open>4/5\<close>; the library returns them in that order, with the first unit
  vector belonging to \<open>1/2\<close> and the second to \<open>4/5\<close>. With one factor the
  objective pairs the largest eigenvalue \<open>4/5\<close> with the first column, the
  eigenvector of \<open>1/2\<close>: the loadings are \<open>[[sqrt (4/5)], [0]]\<close>, not the
  eigenvector of \<open>4/5\<close> scaled by \<open>sqrt (4/5)\<close>.
\<close>

theorem uls_loadings_mispaired:
  "np_eig demo_lib [[1/2, 0], [0, 4/5]] = ([1/2, 4/5], [[1, 0], [0, 1]])
   \<and> dot [[1/2, 0], [0, 4/5]] [[1], [0]] = [[1/2], [0]]
   \<and> dot [[1/2, 0], [0, 4/5]] [[0], [1]] = [[0], [4/5]]
   \<and> uls_loadings demo_lib [1/2, 1/5] [[1, 0], [0, 1]] 1
        = (Inr [[sqrt (4/5)], [0]], [[1/2, 0], [0, 4/5]])
   \<and> [[sqrt (4/5)], [0]] \<noteq> [[0], [sqrt (4/5)]]"
  using uls_loadings_demo by (simp add: demo_eig_diag2 dot_def)

subsection \<open>Running the fit and the analysis on the concrete library\<close>

lemma minimize_loop_numeral:
  "minimize_loop L f start bounds maxiter (numeral k) hist a =
     (case lbfgsb_next L start bounds maxiter hist of
        None \<Rightarrow> (Inr (lbfgsb_result L start bounds maxiter hist), a)
      | Some x \<Rightarrow>
          (case f x a of
             (Inl e, a') \<Rightarrow> (Inl e, a')
           | (Inr v, a') \<Rightarrow>
               minimize_loop L f start bounds maxiter (pred_numeral k) (hist @ [(x, v)]) a'))"
  by (simp add: numeral_eq_Suc)

lemma demo_minimize:
  assumes "f start a = (Inr v, a')"
  shows "minimize demo_lib f start bounds maxiter a =
     (Inr \<lparr>res_x = start, res_success = True, res_message = ''CONVERGENCE''\<rparr>, a')"
proof -
  have n: "lbfgsb_next demo_lib start bounds maxiter [] = Some start"
    "lbfgsb_next demo_lib start bounds maxiter [(start, v)] = None"
    "lbfgsb_result demo_lib start bounds maxiter [(start, v)] =
       \<lparr>res_x = start, res_success = True, res_message = ''CONVERGENCE''\<rparr>"
    "lbfgsb_maxfun demo_lib = 15000"
    by (simp_all add: demo_lib_def)
  have "minimize_loop demo_lib f start bounds maxiter 15000 [] a
     = minimize_loop demo_lib f start bounds maxiter 14999 [(start, v)] a'"
    by (subst minimize_loop_numeral) (simp add: n(1) assms)
  also have "\<dots> = (Inr \<lparr>res_x = start, res_success = True, res_message = ''CONVERGENCE''\<rparr>, a')"
    by (subst minimize_loop_numeral) (simp add: n(2,3))
  finally show ?thesis by (simp add: minimize_def n(4))
qed

lemma uls_objective_demo_half:
  "fit_uls_objective demo_lib [1/2, 1/2] [[1, 0], [0, 1]] (Suc 0) = (Inr (1/4), [[1/2, 0], [0, 1/2]])"
  by (simp add: fit_uls_objective_def uls_loadings_def fill_identity demo_eig_diag2 np_real_def
      float_eps_def Let_def dot_def power2_eq_square)

lemma normalize_wls_demo_half:
  "normalize_wls demo_lib [1/2, 1/2] [[1/2, 0], [0, 1/2]] (Suc 0) = ([[sqrt (1/2)], [0]], [[1/2, 0], [0, 1/2]])"
  by (simp add: normalize_wls_def fill_diagonal_def upt_rec demo_eig_diag2 np_real_def Let_def dot_def
      diag_mat_def)

lemma string_of_nat_1: "string_of_nat (Suc 0) = ''1''"
  by (simp add: string_of_nat.simps)

lemma fit_demo:
  assumes "meth \<noteq> ''ml''"
  shows "fit_factor_analysis demo_lib self (table_uncorrelated a b) (Suc 0) False bounds meth =
     (Inr \<lparr>index = [Name a, Name b], columns = [Name ''Factor1''],
           vals = [[sqrt (1/2)], [0]]\<rparr>,
      if meth \<notin> {''ml'', ''minres''} \<and> log_warnings self then [UnknownMethod meth] else [])"
proof -
  have c: "pd_corr demo_lib (table_uncorrelated a b) = demo_corr (table_uncorrelated a b)"
    by (simp add: demo_lib_def)
  have m: "\<And>b. minimize demo_lib (\<lambda>psi a. fit_uls_objective demo_lib psi a (Suc 0)) [1/2, 1/2]
             b 1000 [[1, 0], [0, 1]]
       = (Inr \<lparr>res_x = [1/2, 1/2], res_success = True, res_message = ''CONVERGENCE''\<rparr>,
          [[1/2, 0], [0, 1/2]])"
    by (rule demo_minimize) (rule uls_objective_demo_half)
  have r: "replicate 2 (1/2::real) = [1/2, 1/2]" by (simp add: numeral_2_eq_2)
  have t: "tcolumns (table_uncorrelated a b) = [a, b]" by (simp add: table_uncorrelated_def)
  show ?thesis
    using assms
    by (simp add: fit_factor_analysis_def c demo_corr_uncorrelated corr_isnull_any_def as_matrix_def
        Let_def r m normalize_wls_demo_half string_of_nat_1 t upt_rec)
qed


lemma select_all2: "select [True, True] [a, b] = [a, b]"
  by (simp add: select_def)

lemma remove_non_numeric_demo: "remove_non_numeric self (table_uncorrelated a b) = ((table_uncorrelated a b), [])"
  by (simp add: remove_non_numeric_def table_uncorrelated_def Let_def column_def isreal_def
      select_all2 upt_rec)

lemma isnull_any_demo: "\<not> isnull_any (table_uncorrelated a b)"
  by (simp add: isnull_any_def table_uncorrelated_def isnull_def)

lemma scale_demo: "sk_scale demo_lib (table_uncorrelated a b) = Some [[1, 1], [1, -1], [-1, 1], [-1, -1]]"
  by (simp add: demo_lib_def demo_scale_def table_uncorrelated_def numbers_def)

lemma table_of_demo: "table_of [[1, 1], [1, -1], [-1, 1], [-1, -1]] (tcolumns (table_uncorrelated a b)) = (table_uncorrelated a b)"
  by (simp add: table_of_def table_uncorrelated_def)

lemma analyze_demo:
  assumes "meth \<noteq> ''ml''"
  shows "analyze demo_lib self (table_uncorrelated a b) (Suc 0) None meth False bounds nrm impute =
     (Inr (),
      self\<lparr>corr := Some \<lparr>index = [Name a, Name b], columns = [Name a, Name b],
                            vals = [[Some 1, Some 0], [Some 0, Some 1]]\<rparr>,
           loadings := Some \<lparr>index = [Name a, Name b], columns = [Name ''Factor1''],
                              vals = [[sqrt (1/2)], [0]]\<rparr>,
           rotation_matrix := None\<rparr>,
      if meth \<notin> {''ml'', ''minres''} \<and> log_warnings self then [UnknownMethod meth] else [])"
proof -
  have c: "pd_corr demo_lib (table_uncorrelated a b) = demo_corr (table_uncorrelated a b)"
    by (simp add: demo_lib_def)
  show ?thesis
    by (simp add: analyze_def impute_missing_def rotate_loadings_def remove_non_numeric_demo isnull_any_demo
        scale_demo table_of_demo fit_demo [OF assms] c demo_corr_uncorrelated)
qed

lemma analyze_demo_one_factor_rotated:
  assumes "meth \<noteq> ''ml''" "rotation = Some ''varimax'' \<or> rotation = Some ''promax''"
  shows "fst (analyze demo_lib self (table_uncorrelated a b) (Suc 0) rotation meth False bounds nrm impute)
     = Inl UnpackError"
  using assms
  by (auto simp add: analyze_def impute_missing_def rotate_loadings_def remove_non_numeric_demo
        isnull_any_demo scale_demo table_of_demo fit_demo varimax_def promax_def unpack_def)

subsection \<open>An optimizer run on the concrete library\<close>



subsection \<open>Rotation of a single factor\<close>

text \<open>
  Claim C2 at a failing input. For a loadings frame with one factor column, \<open>varimax\<close>
  and \<open>promax\<close> return the frame alone, with no rotation matrix beside it; the
  assignment \<open>loadings, rotation_mtx = ...\<close> in \<open>analyze\<close> then fails, so an
  analysis with one factor and a rotation raises instead of returning the loadings
  unchanged.
\<close>

theorem rotation_of_one_factor:
  "varimax L \<lparr>index = [Name ''x'', Name ''y''], columns = [Name ''Factor1''],
               vals = [[1/2], [3/10]]\<rparr> nrm max_iter tolerance
     = Bare \<lparr>index = [Name ''x'', Name ''y''], columns = [Name ''Factor1''],
             vals = [[1/2], [3/10]]\<rparr>
   \<and> promax L \<lparr>index = [Name ''x'', Name ''y''], columns = [Name ''Factor1''],
                vals = [[1/2], [3/10]]\<rparr> nrm pw
     = Inr (Bare \<lparr>index = [Name ''x'', Name ''y''], columns = [Name ''Factor1''],
                  vals = [[1/2], [3/10]]\<rparr>)
   \<and> unpack (Bare \<lparr>index = [Name ''x'', Name ''y''], columns = [Name ''Factor1''],
                    vals = [[1/2], [3/10]]\<rparr>) = Inl UnpackError
   \<and> fst (analyze demo_lib (FactorAnalyzer False) (table_uncorrelated ''x'' ''y'') 1
            (Some ''promax'') ''minres'' False (Some (1/200, 1)) True ''median'')
       = Inl UnpackError
   \<and> fst (analyze demo_lib (FactorAnalyzer False) (table_uncorrelated ''x'' ''y'') 1
            (Some ''varimax'') ''minres'' False (Some (1/200, 1)) True ''median'')
       = Inl UnpackError"
  using analyze_demo_one_factor_rotated [of "''minres''" "Some ''promax''"]
    analyze_demo_one_factor_rotated [of "''minres''" "Some ''varimax''"]
  by (simp add: varimax_def promax_def unpack_def)

subsection \<open>Null correlations\<close>

lemma uls_objective_error:
  "fst (fit_uls_objective L psi a k) = Inl e \<Longrightarrow> e = IndexError"
  by (auto simp: fit_uls_objective_def uls_loadings_def Let_def split: prod.splits sum.splits if_splits)

lemma ml_objective_error: "fst (fit_ml_objective L psi a k) \<noteq> Inl e"
  by (simp add: fit_ml_objective_def Let_def)

lemma minimize_loop_error:
  assumes f: "\<And>x a e. fst (f x a) = Inl e \<Longrightarrow> e = IndexError"
  shows "fst (minimize_loop L f start bounds maxiter n hist a) = Inl e \<Longrightarrow> e = IndexError"
proof (induction n arbitrary: hist a)
  case 0
  then show ?case by simp
next
  case (Suc n)
  show ?case
  proof (cases "lbfgsb_next L start bounds maxiter hist")
    case None
    with Suc.prems show ?thesis by simp
  next
    case (Some x)
    obtain r a1 where o: "f x a = (r, a1)" by (cases "f x a")
    show ?thesis
    proof (cases r)
      case (Inl err)
      with f [of x a err] o have "err = IndexError" by simp
      with Suc.prems Some o Inl show ?thesis by simp
    next
      case (Inr v)
      with Suc.prems Some o
      have "fst (minimize_loop L f start bounds maxiter n (hist @ [(x, v)]) a1) = Inl e"
        by simp
      then show ?thesis by (rule Suc.IH)
    qed
  qed
qed

lemma minimize_error:
  assumes f: "\<And>x a e. fst (f x a) = Inl e \<Longrightarrow> e = IndexError"
    and m: "fst (minimize L f start bounds maxiter a) = Inl e"
  shows "e = IndexError"
proof (rule minimize_loop_error [where f = f])
  show "\<And>x a e. fst (f x a) = Inl e \<Longrightarrow> e = IndexError" by (rule f)
  show "fst (minimize_loop L f start bounds maxiter (lbfgsb_maxfun L) [] a) = Inl e"
    using m by (simp add: minimize_def)
qed

lemma smc_error: "smc L data = Inl e \<Longrightarrow> e = LinAlgError"
  by (auto simp: smc_def Let_def split: option.splits)

lemma fit_null:
  "corr_isnull_any (pd_corr L data) \<Longrightarrow>
   fit_factor_analysis L self data k use_smc bounds meth =
     (Inl NullCorrelation,
      if meth \<notin> {''ml'', ''minres''} \<and> log_warnings self then [UnknownMethod meth] else [])"
  by (simp add: fit_factor_analysis_def Let_def)

lemma fit_errors:
  assumes "\<not> corr_isnull_any (pd_corr L data)"
    and "fst (fit_factor_analysis L self data k use_smc bounds meth) = Inl e"
  shows "e = LinAlgError \<or> e = IndexError"
proof -
  let ?corr = "as_matrix (pd_corr L data)"
  let ?start = "if use_smc
                then (case smc L data of
                        Inl e \<Rightarrow> Inl e
                      | Inr smc_mtx \<Rightarrow> Inr (map2 (-) (diagonal ?corr) (concat (vals smc_mtx))))
                else Inr (replicate (length ?corr) (1 / 2))"
  show ?thesis
  proof (cases ?start)
    case (Inl err)
    then have "err = LinAlgError"
      by (auto split: if_splits sum.splits dest: smc_error)
    moreover from assms Inl have "e = err"
      by (simp add: fit_factor_analysis_def Let_def)
    ultimately show ?thesis by simp
  next
    case (Inr start)
    let ?obj = "if meth = ''ml'' then (\<lambda>psi a. fit_ml_objective L psi a k)
                else (\<lambda>psi a. fit_uls_objective L psi a k)"
    have oe: "\<And>x a e. fst (?obj x a) = Inl e \<Longrightarrow> e = IndexError"
      using uls_objective_error ml_objective_error by (auto split: if_splits)
    obtain r a' where m: "minimize L ?obj start (map_option (replicate (length ?corr)) bounds) 1000 ?corr = (r, a')"
      by (cases "minimize L ?obj start (map_option (replicate (length ?corr)) bounds) 1000 ?corr")
    from assms Inr m have "r = Inl e"
      by (auto simp: fit_factor_analysis_def Let_def split: sum.splits)
    then have "fst (minimize L ?obj start (map_option (replicate (length ?corr)) bounds) 1000 ?corr) = Inl e"
      using m by simp
    from minimize_error [where f = ?obj, OF oe this]
    show ?thesis by simp
  qed
qed

text \<open>
  Claim C7. \<open>fit_factor_analysis\<close> raises the null-correlation \<open>ValueError\<close>
  exactly when the correlation matrix of its table has a NaN entry. When it has one,
  the call ends there: its outcome is that error (and the warning about an unknown
  method, when one is due), whatever the rest of the library is, so neither the
  inversion nor the optimizer has been consulted.
\<close>

theorem fit_null_correlation:
  "(fst (fit_factor_analysis L self data k use_smc bounds meth) = Inl NullCorrelation
      \<longleftrightarrow> corr_isnull_any (pd_corr L data))
   \<and> (corr_isnull_any (pd_corr L data) \<longrightarrow>
        fit_factor_analysis L self data k use_smc bounds meth =
          (Inl NullCorrelation,
           if meth \<notin> {''ml'', ''minres''} \<and> log_warnings self then [UnknownMethod meth] else []))
   \<and> (corr_isnull_any (pd_corr L data) \<and> pd_corr L' data = pd_corr L data \<longrightarrow>
        fit_factor_analysis L' self data k use_smc bounds meth =
          fit_factor_analysis L self data k use_smc bounds meth)"
proof -
  have "fst (fit_factor_analysis L self data k use_smc bounds meth) \<noteq> Inl NullCorrelation"
    if "\<not> corr_isnull_any (pd_corr L data)"
    using fit_errors [OF that, of self k use_smc bounds meth NullCorrelation] by auto
  then show ?thesis
    by (auto simp: fit_null)
qed

lemma corr_isnull_any_iff:
  "corr_isnull_any c \<longleftrightarrow> (\<exists>row \<in> set (vals c). None \<in> set row)"
  by (auto simp: corr_isnull_any_def list_ex_iff)

theorem fit_null_correlation_witness:
  "corr_isnull_any (pd_corr demo_lib table_constant)
   \<and> fit_factor_analysis demo_lib (FactorAnalyzer False) table_constant 1 True (Some (1/200, 1)) ''minres''
       = (Inl NullCorrelation, [])
   \<and> \<not> corr_isnull_any (pd_corr demo_lib (table_uncorrelated ''x'' ''y''))
   \<and> fst (fit_factor_analysis demo_lib (FactorAnalyzer False) (table_uncorrelated ''x'' ''y'') 1 True
            (Some (1/200, 1)) ''minres'') \<noteq> Inl NullCorrelation"
proof -
  have c: "pd_corr demo_lib = demo_corr" by (simp add: demo_lib_def)
  have h1: "corr_isnull_any (pd_corr demo_lib table_constant)"
    by (simp add: c demo_corr_constant corr_isnull_any_def)
  have h2: "\<not> corr_isnull_any (pd_corr demo_lib (table_uncorrelated ''x'' ''y''))"
    by (simp add: c demo_corr_uncorrelated corr_isnull_any_def)
  from fit_null_correlation [of demo_lib "FactorAnalyzer False" table_constant 1 True
      "Some (1/200, 1)" "''minres''" demo_lib]
    fit_null_correlation [of demo_lib "FactorAnalyzer False" "table_uncorrelated ''x'' ''y''" 1 True
      "Some (1/200, 1)" "''minres''" demo_lib] h1 h2
  show ?thesis by simp
qed

subsection \<open>Where the result of an analysis lives\<close>

lemma remove_non_numeric_cong:
  assumes "log_warnings self = log_warnings self'"
  shows "remove_non_numeric self d = remove_non_numeric self' d"
  unfolding remove_non_numeric_def assms ..

lemma fit_cong:
  assumes "log_warnings self = log_warnings self'"
  shows "fit_factor_analysis L self d k s b m = fit_factor_analysis L self' d k s b m"
  unfolding fit_factor_analysis_def assms ..

lemma analyze_shape:
  "(\<exists>e w. analyze L self d k rot m s b nrm imp = (Inl e, self, w))
   \<or> (\<exists>c l r w. analyze L self d k rot m s b nrm imp
         = (Inr (), self\<lparr>corr := Some c, loadings := Some l, rotation_matrix := r\<rparr>, w))"
  by (auto simp: analyze_def Let_def split: prod.splits sum.splits option.splits)

lemma analyze_fields:
  "analyze L (self\<lparr>corr := c0, loadings := l0, rotation_matrix := r0\<rparr>) d k rot m s b nrm imp
     = (case analyze L self d k rot m s b nrm imp of
          (Inl e, s', w) \<Rightarrow> (Inl e, self\<lparr>corr := c0, loadings := l0, rotation_matrix := r0\<rparr>, w)
        | (Inr u, s', w) \<Rightarrow> (Inr u, s', w))"
proof -
  have lw: "log_warnings (self\<lparr>corr := c0, loadings := l0, rotation_matrix := r0\<rparr>) = log_warnings self"
    by simp
  show ?thesis
  proof (cases "rot \<in> {Some ''varimax'', Some ''promax'', None}")
    case False
    then show ?thesis by (simp add: analyze_def)
  next
    case True
    then have ok: "\<not> rot \<notin> {Some ''varimax'', Some ''promax'', None}" by simp
    show ?thesis
      unfolding analyze_def if_not_P [OF ok] remove_non_numeric_cong [OF lw] fit_cong [OF lw]
      by (simp add: Let_def split: prod.splits sum.splits option.splits)
  qed
qed


lemma getters_read_fields:
  "loadings other = loadings one \<and> corr other = corr one \<longrightarrow>
     get_communalities other = get_communalities one \<and> get_uniqueness other = get_uniqueness one
     \<and> get_factor_variance other = get_factor_variance one
     \<and> fst (get_eigenvalues L other) = fst (get_eigenvalues L one)"
  by (auto simp: get_communalities_def get_uniqueness_def get_factor_variance_def
      get_eigenvalues_def Let_def split: option.splits prod.splits)

lemma analyze_success:
  assumes "analyze L self d k rot m s b nrm imp = (Inr u, self', w)"
  shows "\<exists>df X fitted rotated rotation_mtx.
           impute_missing imp (fst (remove_non_numeric self d)) = Inr df
         \<and> sk_scale L df = Some X
         \<and> fst (fit_factor_analysis L self (table_of X (tcolumns df)) k s b m) = Inr fitted
         \<and> rotate_loadings L rot fitted nrm = Inr (rotated, rotation_mtx)
         \<and> self' = self\<lparr>corr := Some (pd_corr L df), loadings := Some rotated,
                          rotation_matrix := rotation_mtx\<rparr>
         \<and> w = snd (remove_non_numeric self d)
               @ snd (fit_factor_analysis L self (table_of X (tcolumns df)) k s b m)"
  using assms
  by (auto simp: analyze_def Let_def split: prod.splits sum.splits option.splits if_splits)

lemma analyze_failure:
  assumes "analyze L self d k rot m s b nrm imp = (Inl e, self', w)"
  shows "self' = self"
  using assms analyze_shape [of L self d k rot m s b nrm imp] by auto

lemma rotate_loadings_result:
  assumes "rotate_loadings L rot fitted nrm = Inr (rotated, rotation_mtx)"
  shows "(rot = None \<longrightarrow> rotated = fitted \<and> rotation_mtx = None)
       \<and> (rot = Some ''varimax'' \<longrightarrow>
             varimax L fitted nrm 500 (1 / 10 ^ 5) = Pair rotated (the rotation_mtx)
             \<and> rotation_mtx \<noteq> None)
       \<and> (rot = Some ''promax'' \<longrightarrow>
             promax L fitted nrm 4 = Inr (Pair rotated (the rotation_mtx))
             \<and> rotation_mtx \<noteq> None)"
  using assms
  by (auto simp: rotate_loadings_def unpack_def split: option.splits if_splits sum.splits
      rot_result.splits)

text \<open>
  Claim C4, as the code has it. \<open>analyze\<close> returns no value. When it succeeds, the
  instance it leaves is the one it started from with three attributes assigned: the
  correlation matrix of the cleaned and imputed table, the loadings that the fit on the
  scaled table gave and the rotation turned, and the rotation matrix of that rotation
  (\<open>None\<close>, with the fitted loadings unturned, when no rotation was asked for). What the
  attributes held before plays no part: started on an instance that differs only in
  them, the call ends in the same instance. When it raises, the instance is as it was.
  The diagnostics take no result as an argument: what they return is determined by the
  stored loadings and correlation matrix of the instance they are called on.
\<close>

theorem analyze_stores_result:
  assumes "analyze L self d k rot m s b nrm imp = (r, self', w)"
  shows "(r = Inr () \<longrightarrow>
            (\<exists>df X fitted rotated rotation_mtx.
                 impute_missing imp (fst (remove_non_numeric self d)) = Inr df
               \<and> sk_scale L df = Some X
               \<and> fst (fit_factor_analysis L self (table_of X (tcolumns df)) k s b m) = Inr fitted
               \<and> rotate_loadings L rot fitted nrm = Inr (rotated, rotation_mtx)
               \<and> (rot = None \<longrightarrow> rotated = fitted \<and> rotation_mtx = None)
               \<and> (rot = Some ''varimax'' \<longrightarrow>
                     varimax L fitted nrm 500 (1 / 10 ^ 5) = Pair rotated (the rotation_mtx)
                     \<and> rotation_mtx \<noteq> None)
               \<and> (rot = Some ''promax'' \<longrightarrow>
                     promax L fitted nrm 4 = Inr (Pair rotated (the rotation_mtx))
                     \<and> rotation_mtx \<noteq> None)
               \<and> self' = self\<lparr>corr := Some (pd_corr L df), loadings := Some rotated,
                                rotation_matrix := rotation_mtx\<rparr>)
            \<and> analyze L (self\<lparr>corr := cprev, loadings := lprev, rotation_matrix := rprev\<rparr>)
                  d k rot m s b nrm imp = (r, self', w))
         \<and> (r \<noteq> Inr () \<longrightarrow> self' = self)
         \<and> (loadings other = loadings self' \<and> corr other = corr self' \<longrightarrow>
               get_communalities other = get_communalities self'
               \<and> get_uniqueness other = get_uniqueness self'
               \<and> get_factor_variance other = get_factor_variance self'
               \<and> fst (get_eigenvalues L other) = fst (get_eigenvalues L self'))"
proof -
  have a: "r = Inr () \<longrightarrow>
            (\<exists>df X fitted rotated rotation_mtx.
                 impute_missing imp (fst (remove_non_numeric self d)) = Inr df
               \<and> sk_scale L df = Some X
               \<and> fst (fit_factor_analysis L self (table_of X (tcolumns df)) k s b m) = Inr fitted
               \<and> rotate_loadings L rot fitted nrm = Inr (rotated, rotation_mtx)
               \<and> (rot = None \<longrightarrow> rotated = fitted \<and> rotation_mtx = None)
               \<and> (rot = Some ''varimax'' \<longrightarrow>
                     varimax L fitted nrm 500 (1 / 10 ^ 5) = Pair rotated (the rotation_mtx)
                     \<and> rotation_mtx \<noteq> None)
               \<and> (rot = Some ''promax'' \<longrightarrow>
                     promax L fitted nrm 4 = Inr (Pair rotated (the rotation_mtx))
                     \<and> rotation_mtx \<noteq> None)
               \<and> self' = self\<lparr>corr := Some (pd_corr L df), loadings := Some rotated,
                                rotation_matrix := rotation_mtx\<rparr>)"
  proof
    assume "r = Inr ()"
    with assms have "analyze L self d k rot m s b nrm imp = (Inr (), self', w)" by simp
    from analyze_success [OF this]
    obtain df X fitted rotated rotation_mtx where
      s: "impute_missing imp (fst (remove_non_numeric self d)) = Inr df"
        "sk_scale L df = Some X"
        "fst (fit_factor_analysis L self (table_of X (tcolumns df)) k s b m) = Inr fitted"
        "rotate_loadings L rot fitted nrm = Inr (rotated, rotation_mtx)"
        "self' = self\<lparr>corr := Some (pd_corr L df), loadings := Some rotated,
                         rotation_matrix := rotation_mtx\<rparr>"
      by blast
    from rotate_loadings_result [OF s(4)] s
    show "\<exists>df X fitted rotated rotation_mtx.
                 impute_missing imp (fst (remove_non_numeric self d)) = Inr df
               \<and> sk_scale L df = Some X
               \<and> fst (fit_factor_analysis L self (table_of X (tcolumns df)) k s b m) = Inr fitted
               \<and> rotate_loadings L rot fitted nrm = Inr (rotated, rotation_mtx)
               \<and> (rot = None \<longrightarrow> rotated = fitted \<and> rotation_mtx = None)
               \<and> (rot = Some ''varimax'' \<longrightarrow>
                     varimax L fitted nrm 500 (1 / 10 ^ 5) = Pair rotated (the rotation_mtx)
                     \<and> rotation_mtx \<noteq> None)
               \<and> (rot = Some ''promax'' \<longrightarrow>
                     promax L fitted nrm 4 = Inr (Pair rotated (the rotation_mtx))
                     \<and> rotation_mtx \<noteq> None)
               \<and> self' = self\<lparr>corr := Some (pd_corr L df), loadings := Some rotated,
                                rotation_matrix := rotation_mtx\<rparr>"
      by blast
  qed
  have b: "r = Inr () \<longrightarrow>
      analyze L (self\<lparr>corr := cprev, loadings := lprev, rotation_matrix := rprev\<rparr>) d k rot m s b nrm imp
        = (r, self', w)"
    by (simp add: analyze_fields assms)
  have c: "r \<noteq> Inr () \<longrightarrow> self' = self"
    using assms analyze_failure [of L self d k rot m s b nrm imp _ self' w] by (cases r) auto
  from a b c getters_read_fields [of other self' L] show ?thesis by blast
qed

lemma analyze_demo_state:
  assumes "meth \<noteq> ''ml''"
  shows "fst (analyze demo_lib self (table_uncorrelated a b) 1 None meth False bounds nrm impute) = Inr ()"
    and "corr (fst (snd (analyze demo_lib self (table_uncorrelated a b) 1 None meth False bounds nrm impute)))
           = Some (pd_corr demo_lib (table_uncorrelated a b))"
    and "map_option index (loadings (fst (snd (analyze demo_lib self (table_uncorrelated a b) 1 None
           meth False bounds nrm impute)))) = Some [Name a, Name b]"
    and "rotation_matrix (fst (snd (analyze demo_lib self (table_uncorrelated a b) 1 None meth False
           bounds nrm impute))) = None"
    and "log_warnings (fst (snd (analyze demo_lib self (table_uncorrelated a b) 1 None meth False
           bounds nrm impute))) = log_warnings self"
    and "snd (snd (analyze demo_lib self (table_uncorrelated a b) 1 None meth False bounds nrm impute))
           = (if meth \<notin> {''ml'', ''minres''} \<and> log_warnings self then [UnknownMethod meth] else [])"
  using analyze_demo [OF assms, of self a b bounds nrm impute]
  by (simp_all add: demo_lib_def demo_corr_uncorrelated)

text \<open>
  Claim C4 as stated fails: two analyses run one after the other on one instance each
  return nothing; the first leaves loadings for the variables \<open>x\<close>, \<open>y\<close> in the
  instance, the second replaces them with loadings for \<open>u\<close>, \<open>v\<close>, and
  \<open>get_communalities\<close> answers from what the instance holds at the time.
\<close>

theorem analyze_overwrites_previous_result:
  "fst (analyze demo_lib (FactorAnalyzer False) (table_uncorrelated ''x'' ''y'') 1 None ''minres''
        False None True ''median'') = Inr ()
   \<and> loadings (FactorAnalyzer False) = None
   \<and> map_option index (loadings (fst (snd (analyze demo_lib (FactorAnalyzer False)
        (table_uncorrelated ''x'' ''y'') 1 None ''minres'' False None True ''median''))))
       = Some [Name ''x'', Name ''y'']
   \<and> fst (analyze demo_lib
        (fst (snd (analyze demo_lib (FactorAnalyzer False) (table_uncorrelated ''x'' ''y'') 1 None
           ''minres'' False None True ''median'')))
        (table_uncorrelated ''u'' ''v'') 1 None ''minres'' False None True ''median'') = Inr ()
   \<and> map_option index (loadings (fst (snd (analyze demo_lib
        (fst (snd (analyze demo_lib (FactorAnalyzer False) (table_uncorrelated ''x'' ''y'') 1 None
           ''minres'' False None True ''median'')))
        (table_uncorrelated ''u'' ''v'') 1 None ''minres'' False None True ''median''))))
       = Some [Name ''u'', Name ''v'']
   \<and> map_option index (get_communalities (fst (snd (analyze demo_lib
        (fst (snd (analyze demo_lib (FactorAnalyzer False) (table_uncorrelated ''x'' ''y'') 1 None
           ''minres'' False None True ''median'')))
        (table_uncorrelated ''u'' ''v'') 1 None ''minres'' False None True ''median''))))
       = Some [Name ''u'', Name ''v'']"
proof -
  have m: "''minres'' \<noteq> ''ml''" by simp
  have n: "loadings (FactorAnalyzer False) = None" by (simp add: FactorAnalyzer_def)
  have g: "\<And>st. map_option index (get_communalities st) = map_option index (loadings st)"
    by (simp add: get_communalities_def communalities_of_def split: option.splits)
  show ?thesis
    by (simp only: analyze_demo_state(1,3) [OF m] n g simp_thms)
qed

theorem analyze_stores_result_witness:
  "fst (analyze demo_lib (FactorAnalyzer False) (table_uncorrelated ''x'' ''y'') 1 None ''minres''
        False None True ''median'') = Inr ()
   \<and> corr (fst (snd (analyze demo_lib (FactorAnalyzer False) (table_uncorrelated ''x'' ''y'') 1 None
        ''minres'' False None True ''median'')))
       = Some (pd_corr demo_lib (table_uncorrelated ''x'' ''y''))
   \<and> rotation_matrix (fst (snd (analyze demo_lib (FactorAnalyzer False)
        (table_uncorrelated ''x'' ''y'') 1 None ''minres'' False None True ''median''))) = None
   \<and> analyze demo_lib
        ((FactorAnalyzer False)\<lparr>corr := None,
           loadings := Some \<lparr>index = [], columns = [], vals = []\<rparr>,
           rotation_matrix := Some [[1]]\<rparr>)
        (table_uncorrelated ''x'' ''y'') 1 None ''minres'' False None True ''median''
       = analyze demo_lib (FactorAnalyzer False) (table_uncorrelated ''x'' ''y'') 1 None ''minres''
           False None True ''median''
   \<and> analyze demo_lib (FactorAnalyzer True) (table_uncorrelated ''x'' ''y'') 1 (Some ''oblimin'')
        ''minres'' False None True ''median'' = (Inl BadRotation, FactorAnalyzer True, [])"
proof -
  let ?A = "analyze demo_lib (FactorAnalyzer False) (table_uncorrelated ''x'' ''y'') 1 None ''minres''
        False None True ''median''"
  have m: "''minres'' \<noteq> ''ml''" by simp
  have h: "?A = (Inr (), fst (snd ?A), snd (snd ?A))"
    using analyze_demo_state(1) [OF m, of "FactorAnalyzer False" "''x''" "''y''" None True "''median''"]
    by (metis prod.collapse)
  have h2: "analyze demo_lib (FactorAnalyzer True) (table_uncorrelated ''x'' ''y'') 1 (Some ''oblimin'')
        ''minres'' False None True ''median'' = (Inl BadRotation, FactorAnalyzer True, [])"
    by (simp add: analyze_def)
  have df: "impute_missing ''median'' (fst (remove_non_numeric (FactorAnalyzer False)
              (table_uncorrelated ''x'' ''y''))) = Inr (table_uncorrelated ''x'' ''y'')"
    by (simp add: remove_non_numeric_demo impute_missing_def isnull_any_demo)
  from analyze_stores_result [OF h, where cprev = None
        and lprev = "Some \<lparr>index = [], columns = [], vals = []\<rparr>" and rprev = "Some [[1]]"
        and other = "fst (snd ?A)"]
  have stored: "corr (fst (snd ?A)) = Some (pd_corr demo_lib (table_uncorrelated ''x'' ''y''))
       \<and> rotation_matrix (fst (snd ?A)) = None"
    and again: "analyze demo_lib
        ((FactorAnalyzer False)\<lparr>corr := None,
           loadings := Some \<lparr>index = [], columns = [], vals = []\<rparr>,
           rotation_matrix := Some [[1]]\<rparr>)
        (table_uncorrelated ''x'' ''y'') 1 None ''minres'' False None True ''median''
       = (Inr (), fst (snd ?A), snd (snd ?A))"
    unfolding df by auto
  from stored again h h2 show ?thesis
    using analyze_demo_state(1) [OF m, of "FactorAnalyzer False" "''x''" "''y''" None True "''median''"]
    by simp
qed

subsection \<open>Unknown rotation and unknown method\<close>

lemma impute_missing_error: "impute_missing imp df = Inl e \<Longrightarrow> e = BadImpute"
  by (auto simp: impute_missing_def split: if_splits)

lemma promax_error: "promax L df nrm pw = Inl e \<Longrightarrow> e = UnpackError"
  by (auto simp: promax_def Let_def split: if_splits rot_result.splits)

lemma unpack_error: "unpack r = Inl e \<Longrightarrow> e = UnpackError"
  by (auto simp: unpack_def split: rot_result.splits)

lemma rotate_loadings_error: "rotate_loadings L rot l nrm = Inl e \<Longrightarrow> e = UnpackError"
  by (auto simp: rotate_loadings_def split: option.splits if_splits sum.splits
      dest: promax_error unpack_error)

lemma fit_error_kinds:
  assumes "fst (fit_factor_analysis L self d k s b m) = Inl e"
  shows "e = NullCorrelation \<or> e = LinAlgError \<or> e = IndexError"
proof (cases "corr_isnull_any (pd_corr L d)")
  case True
  with assms show ?thesis by (simp add: fit_null)
next
  case False
  from fit_errors [OF False assms] show ?thesis by blast
qed

lemma fit_error_not_config:
  "fit_factor_analysis L self d k s b m \<noteq> (Inl BadRotation, w)"
  "fit_factor_analysis L self d k s b m \<noteq> (Inl BadImpute, w)"
  "fit_factor_analysis L self d k s b m \<noteq> (Inl ScaleError, w)"
  using fit_error_kinds [of L self d k s b m BadRotation]
    fit_error_kinds [of L self d k s b m BadImpute]
    fit_error_kinds [of L self d k s b m ScaleError]
  by auto

lemma analyze_bad_rotation:
  "fst (analyze L self d k rot m s b nrm imp) = Inl BadRotation
     \<longleftrightarrow> rot \<notin> {Some ''varimax'', Some ''promax'', None}"
proof (cases "rot \<in> {Some ''varimax'', Some ''promax'', None}")
  case False
  then show ?thesis by (simp add: analyze_def)
next
  case True
  then have ok: "\<not> rot \<notin> {Some ''varimax'', Some ''promax'', None}" by simp
  have "fst (analyze L self d k rot m s b nrm imp) \<noteq> Inl BadRotation"
    unfolding analyze_def if_not_P [OF ok]
    by (auto simp: Let_def fit_error_not_config split: prod.splits sum.splits option.splits
        dest: impute_missing_error rotate_loadings_error)
  with True show ?thesis by simp
qed

lemma fit_unknown_method:
  assumes "m \<notin> {''ml'', ''minres''}"
  shows "fit_factor_analysis L self d k s b m
     = (fst (fit_factor_analysis L self d k s b ''minres''),
        (if log_warnings self then [UnknownMethod m] else [])
          @ snd (fit_factor_analysis L self d k s b ''minres''))"
  using assms
  by (auto simp: fit_factor_analysis_def Let_def split: prod.splits sum.splits)

lemma fit_quiet: "\<not> log_warnings self \<Longrightarrow> snd (fit_factor_analysis L self d k s b m) = []"
  by (auto simp: fit_factor_analysis_def Let_def split: prod.splits sum.splits)

lemma remove_non_numeric_quiet: "\<not> log_warnings self \<Longrightarrow> snd (remove_non_numeric self d) = []"
  by (simp add: remove_non_numeric_def Let_def)


lemma analyze_quiet:
  assumes "\<not> log_warnings self"
  shows "snd (snd (analyze L self d k rot m s b nrm imp)) = []"
proof -
  have r: "\<And>x w. remove_non_numeric self d = (x, w) \<Longrightarrow> w = []"
    using remove_non_numeric_quiet [OF assms, of d] by (metis snd_conv)
  have f: "\<And>t x w. fit_factor_analysis L self t k s b m = (x, w) \<Longrightarrow> w = []"
    using fit_quiet [OF assms, of L _ k s b m] by (metis snd_conv)
  show ?thesis
    by (auto simp: analyze_def Let_def split: prod.splits sum.splits option.splits dest: r f)
qed

lemma analyze_unknown_method:
  assumes "m \<notin> {''ml'', ''minres''}"
  shows "fst (analyze L self d k rot m s b nrm imp) = fst (analyze L self d k rot ''minres'' s b nrm imp)
     \<and> fst (snd (analyze L self d k rot m s b nrm imp))
         = fst (snd (analyze L self d k rot ''minres'' s b nrm imp))"
proof -
  have f: "\<And>t. fit_factor_analysis L self t k s b m
     = (fst (fit_factor_analysis L self t k s b ''minres''),
        (if log_warnings self then [UnknownMethod m] else [])
          @ snd (fit_factor_analysis L self t k s b ''minres''))"
    by (rule fit_unknown_method [OF assms])
  show ?thesis
    unfolding analyze_def f
    by (auto simp: Let_def split: prod.splits sum.splits option.splits)
qed

lemma remove_non_numeric_log:
  "remove_non_numeric self d = (x, w) \<Longrightarrow> UnknownMethod m' \<notin> set w"
  by (auto simp: remove_non_numeric_def Let_def split: if_splits)

lemma fit_log:
  "fit_factor_analysis L self d k s b m = (x, w) \<Longrightarrow>
     (UnknownMethod m' \<in> set w \<longleftrightarrow> m' = m \<and> m \<notin> {''ml'', ''minres''} \<and> log_warnings self)"
  by (auto simp: fit_factor_analysis_def Let_def split: prod.splits sum.splits if_splits)

lemma analyze_warning_iff:
  "UnknownMethod m' \<in> set (snd (snd (analyze L self d k rot m s b nrm imp)))
     \<longleftrightarrow> m' = m \<and> m \<notin> {''ml'', ''minres''} \<and> log_warnings self
         \<and> fst (analyze L self d k rot m s b nrm imp)
              \<notin> {Inl BadRotation, Inl BadImpute, Inl ScaleError}"
proof (cases "rot \<in> {Some ''varimax'', Some ''promax'', None}")
  case False
  then show ?thesis by (simp add: analyze_def)
next
  case True
  then have ok: "\<not> rot \<notin> {Some ''varimax'', Some ''promax'', None}" by simp
  show ?thesis
    unfolding analyze_def if_not_P [OF ok]
    by (auto simp: Let_def fit_error_not_config fit_log
        split: prod.splits sum.splits option.splits
        dest: impute_missing_error rotate_loadings_error remove_non_numeric_log)
qed

lemma analyze_bad_impute:
  assumes "rot \<in> {Some ''varimax'', Some ''promax'', None}"
    and "isnull_any (fst (remove_non_numeric self d))"
    and "imp \<notin> {''median'', ''mean'', ''drop''}"
  shows "analyze L self d k rot m s b nrm imp
     = (Inl BadImpute, self, snd (remove_non_numeric self d))"
proof -
  from assms(1) have ok: "\<not> rot \<notin> {Some ''varimax'', Some ''promax'', None}" by simp
  obtain x w where r: "remove_non_numeric self d = (x, w)"
    by (cases "remove_non_numeric self d")
  from assms(2,3) r have i: "impute_missing imp x = Inl BadImpute"
    by (simp add: impute_missing_def)
  show ?thesis
    unfolding analyze_def if_not_P [OF ok]
    by (simp add: Let_def r i)
qed

text \<open>
  Claim C8, as the code has it. \<open>analyze\<close> raises the rotation error exactly when
  \<open>rotation\<close> is none of \<open>'varimax'\<close>, \<open>'promax'\<close> and \<open>None\<close>; with a valid rotation
  it still raises the impute error when the table has a missing value and \<open>impute\<close> is
  none of \<open>'median'\<close>, \<open>'mean'\<close> and \<open>'drop'\<close>. A method other than \<open>'ml'\<close> and
  \<open>'minres'\<close> is treated as \<open>'minres'\<close>: the fit and the analysis have the outcome
  and, for the analysis, the stored result they have for \<open>'minres'\<close>. The warning about
  an unknown method is in the log of the call exactly when the method is unknown, the
  analyzer was created with \<open>log_warnings=True\<close> and the fit is reached (the call
  did not end in the rotation, impute or scaling error); an analyzer created with
  \<open>log_warnings=False\<close>, the default, logs nothing at all.
\<close>

theorem analyze_rotation_and_method:
  "(fst (analyze L self d k rot m s b nrm imp) = Inl BadRotation
      \<longleftrightarrow> rot \<notin> {Some ''varimax'', Some ''promax'', None})
   \<and> (rot \<in> {Some ''varimax'', Some ''promax'', None}
        \<and> isnull_any (fst (remove_non_numeric self d))
        \<and> imp \<notin> {''median'', ''mean'', ''drop''} \<longrightarrow>
        analyze L self d k rot m s b nrm imp
          = (Inl BadImpute, self, snd (remove_non_numeric self d)))
   \<and> (m \<notin> {''ml'', ''minres''} \<longrightarrow>
        fit_factor_analysis L self d k s b m
          = (fst (fit_factor_analysis L self d k s b ''minres''),
             (if log_warnings self then [UnknownMethod m] else [])
               @ snd (fit_factor_analysis L self d k s b ''minres''))
        \<and> fst (analyze L self d k rot m s b nrm imp)
            = fst (analyze L self d k rot ''minres'' s b nrm imp)
        \<and> fst (snd (analyze L self d k rot m s b nrm imp))
            = fst (snd (analyze L self d k rot ''minres'' s b nrm imp)))
   \<and> (UnknownMethod m' \<in> set (snd (snd (analyze L self d k rot m s b nrm imp)))
        \<longleftrightarrow> m' = m \<and> m \<notin> {''ml'', ''minres''} \<and> log_warnings self
            \<and> fst (analyze L self d k rot m s b nrm imp)
                 \<notin> {Inl BadRotation, Inl BadImpute, Inl ScaleError})
   \<and> (\<not> log_warnings self \<longrightarrow> snd (snd (analyze L self d k rot m s b nrm imp)) = [])"
  using analyze_bad_rotation [of L self d k rot m s b nrm imp]
    analyze_bad_impute [of rot self d imp L k m s b nrm]
    fit_unknown_method [of m L self d k s b]
    analyze_unknown_method [of m L self d k rot s b nrm imp]
    analyze_warning_iff [of m' L self d k rot m s b nrm imp]
    analyze_quiet [of self L d k rot m s b nrm imp]
  by blast

text \<open>
  Claim C8 as stated fails: with the default \<open>log_warnings=False\<close> an analysis with
  the unknown method \<open>'pca'\<close> runs to its end and no warning is emitted.
\<close>

theorem analyze_unknown_method_silent:
  "fst (analyze demo_lib (FactorAnalyzer False) (table_uncorrelated ''x'' ''y'') 1 None ''pca''
       False None True ''median'') = Inr ()
   \<and> snd (snd (analyze demo_lib (FactorAnalyzer False) (table_uncorrelated ''x'' ''y'') 1 None ''pca''
       False None True ''median'')) = []
   \<and> ''pca'' \<notin> {''ml'', ''minres''}
   \<and> log_warnings (FactorAnalyzer False) = False"
proof -
  have m: "''pca'' \<noteq> ''ml''" by simp
  show ?thesis
    using analyze_demo_state(1,6) [OF m, of "FactorAnalyzer False" "''x''" "''y''" None True "''median''"]
    by (simp add: FactorAnalyzer_def)
qed

lemma remove_non_numeric_missing:
  "remove_non_numeric self table_missing = (table_missing, [])"
  by (simp add: remove_non_numeric_def table_missing_def Let_def column_def isreal_def
      select_all2 upt_rec)

lemma isnull_any_missing: "isnull_any table_missing"
  by (simp add: isnull_any_def table_missing_def isnull_def)

theorem analyze_rotation_and_method_witness:
  "fst (analyze demo_lib (FactorAnalyzer True) (table_uncorrelated ''x'' ''y'') 1 None ''pca''
       False None True ''median'') = Inr ()
   \<and> fst (analyze demo_lib (FactorAnalyzer True) (table_uncorrelated ''x'' ''y'') 1 None ''minres''
       False None True ''median'') = Inr ()
   \<and> UnknownMethod ''pca'' \<in> set (snd (snd (analyze demo_lib (FactorAnalyzer True)
       (table_uncorrelated ''x'' ''y'') 1 None ''pca'' False None True ''median'')))
   \<and> snd (snd (analyze demo_lib (FactorAnalyzer False)
       (table_uncorrelated ''x'' ''y'') 1 None ''pca'' False None True ''median'')) = []
   \<and> fst (analyze demo_lib (FactorAnalyzer True) (table_uncorrelated ''x'' ''y'') 1 (Some ''oblimin'')
       ''pca'' False None True ''median'') = Inl BadRotation
   \<and> analyze demo_lib (FactorAnalyzer True) table_missing 1 (Some ''varimax'') ''pca'' False None
       True ''zero'' = (Inl BadImpute, FactorAnalyzer True, [])
   \<and> UnknownMethod ''pca'' \<notin> set (snd (snd (analyze demo_lib (FactorAnalyzer True) table_missing 1
       (Some ''varimax'') ''pca'' False None True ''zero'')))"
proof -
  have e: "fst (analyze demo_lib (FactorAnalyzer True) (table_uncorrelated ''x'' ''y'') 1 None ''pca''
       False None True ''median'') = Inr ()"
    using analyze_demo [of "''pca''" "FactorAnalyzer True" "''x''" "''y''" None True "''median''"]
    by simp
  have t: "log_warnings (FactorAnalyzer True)" and f: "\<not> log_warnings (FactorAnalyzer False)"
    by (simp_all add: FactorAnalyzer_def)
  from analyze_rotation_and_method [of demo_lib "FactorAnalyzer True" "table_uncorrelated ''x'' ''y''"
      1 None "''pca''" False None True "''median''" "''pca''"]
    analyze_rotation_and_method [of demo_lib "FactorAnalyzer False" "table_uncorrelated ''x'' ''y''"
      1 None "''pca''" False None True "''median''" "''pca''"]
    analyze_rotation_and_method [of demo_lib "FactorAnalyzer True" "table_uncorrelated ''x'' ''y''"
      1 "Some ''oblimin''" "''pca''" False None True "''median''" "''pca''"]
    analyze_rotation_and_method [of demo_lib "FactorAnalyzer True" table_missing
      1 "Some ''varimax''" "''pca''" False None True "''zero''" "''pca''"]
    e t f
  show ?thesis by (simp add: remove_non_numeric_missing isnull_any_missing)
qed

end
